theory Spec2Isabelle
  imports
    Complex_Main
    "HOL-Library.Char_ord"
    "HOL-Library.List_Lexorder"
    "HOL-Library.Product_Lexorder"
    "HOL-Library.Multiset"
    "HOL-Library.Sublist"
begin

section \<open>Data model (src/models.py, src/config.py)\<close>

text \<open>
  Conventions of the embedding.
  \<^item> A Python \<open>float\<close> is a \<open>real\<close>: the arithmetic of the scores is the exact one,
    rounding is not modelled.
  \<^item> A \<open>datetime\<close> is an \<open>int\<close>, the number of microseconds since a fixed epoch; a
    \<open>timedelta\<close> is the difference of two of them and \<open>total_seconds()\<close> compares as
    that number of microseconds does.
  \<^item> A \<open>str\<close> is a \<open>string\<close> of bytes; \<open>lower()\<close> acts on the ASCII letters.
  \<^item> \<open>datetime.utcnow()\<close> is a parameter \<open>now\<close> of every function that reads the clock;
    the reads within one call are taken to give the same instant.
\<close>

datatype source_tier = Tier_A | Tier_B | Tier_C | Tier_D

fun tier_value :: "source_tier \<Rightarrow> string" where
  "tier_value Tier_A = ''A''"
| "tier_value Tier_B = ''B''"
| "tier_value Tier_C = ''C''"
| "tier_value Tier_D = ''D''"

datatype event_type =
    GOVERNMENT_CHANGE | ELECTION | SANCTIONS | ARMED_CONFLICT | CEASEFIRE
  | TERRORIST_ATTACK | CIVIL_UNREST | BORDER_INCIDENT | TRADE_RESTRICTION
  | ECONOMIC_CRISIS | INFRASTRUCTURE_DISRUPTION | NATURAL_DISASTER
  | DIPLOMATIC_RUPTURE | MILITARY_MOBILIZATION | CYBER_INCIDENT | LEGAL_CHANGE
  | STRATEGIC_INVESTMENT

fun event_type_value :: "event_type \<Rightarrow> string" where
  "event_type_value GOVERNMENT_CHANGE = ''government_change''"
| "event_type_value ELECTION = ''election''"
| "event_type_value SANCTIONS = ''sanctions''"
| "event_type_value ARMED_CONFLICT = ''armed_conflict''"
| "event_type_value CEASEFIRE = ''ceasefire''"
| "event_type_value TERRORIST_ATTACK = ''terrorist_attack''"
| "event_type_value CIVIL_UNREST = ''civil_unrest''"
| "event_type_value BORDER_INCIDENT = ''border_incident''"
| "event_type_value TRADE_RESTRICTION = ''trade_restriction''"
| "event_type_value ECONOMIC_CRISIS = ''economic_crisis''"
| "event_type_value INFRASTRUCTURE_DISRUPTION = ''infrastructure_disruption''"
| "event_type_value NATURAL_DISASTER = ''natural_disaster''"
| "event_type_value DIPLOMATIC_RUPTURE = ''diplomatic_rupture''"
| "event_type_value MILITARY_MOBILIZATION = ''military_mobilization''"
| "event_type_value CYBER_INCIDENT = ''cyber_incident''"
| "event_type_value LEGAL_CHANGE = ''legal_change''"
| "event_type_value STRATEGIC_INVESTMENT = ''strategic_investment''"

datatype confidence_level = HIGH | MEDIUM | LOW

text \<open>\<open>RawSource\<close>; its free-form \<open>metadata\<close> dictionary is read by none of the
  functions below and is left out.\<close>

record raw_source =
  source_id :: string
  url :: string
  title :: string
  content :: string
  source_name :: string
  tier :: source_tier
  language :: string
  published_at :: "int option"
  retrieved_at :: int

record source_citation =
  cit_url :: string
  cit_title :: string
  cit_source_name :: string
  cit_tier :: source_tier
  cit_published_at :: "int option"
  cit_retrieved_at :: "int option"

definition to_citation :: "raw_source \<Rightarrow> source_citation" where
  "to_citation s =
     \<lparr> cit_url = url s, cit_title = title s, cit_source_name = source_name s,
       cit_tier = tier s, cit_published_at = published_at s,
       cit_retrieved_at = Some (retrieved_at s) \<rparr>"

text \<open>\<open>Event\<close>. Its \<open>impact_tags\<close> are built by \<open>list(set(tags))\<close>, a list in an order
  Python leaves open; the field is the set of the tags.\<close>

record event =
  event_id :: string
  event_type :: event_type
  timestamp :: int
  location :: string
  summary :: string
  location_geo :: "string option"
  entities :: "string list"
  sources :: "source_citation list"
  confidence :: real
  confidence_label :: confidence_level
  impact_tags :: "string set"
  evidence_links :: "string list"
  created_at :: int
  updated_at :: int

text \<open>\<open>Event.update_confidence\<close>: clamps to [0, 1], derives the label, stamps the clock.\<close>

definition update_confidence :: "int \<Rightarrow> event \<Rightarrow> real \<Rightarrow> event" where
  "update_confidence now e new_confidence =
     (let c = max 0 (min 1 new_confidence)
      in e \<lparr> confidence := c,
             confidence_label :=
               (if c \<ge> 0.7 then HIGH else if c \<ge> 0.4 then MEDIUM else LOW),
             updated_at := now \<rparr>)"

record sub_score =
  ss_name :: string
  ss_value :: real
  ss_delta_7d :: real
  ss_delta_30d :: real
  ss_delta_90d :: real
  ss_drivers :: "string list"

record assessment =
  assessment_id :: string
  target :: string
  overall_score :: real
  sub_scores :: "sub_score list"
  delta_7d :: real
  delta_30d :: real
  delta_90d :: real
  drivers :: "string list"
  a_confidence :: real
  generated_at :: int

text \<open>\<open>Assessment.get_sub_score\<close>: the first sub-score of that name.\<close>

fun get_sub_score :: "sub_score list \<Rightarrow> string \<Rightarrow> sub_score option" where
  "get_sub_score [] n = None"
| "get_sub_score (s # ss) n = (if ss_name s = n then Some s else get_sub_score ss n)"

text \<open>The configuration (\<open>config.yaml\<close> as \<open>Config\<close> loads it). \<open>weights\<close> is a
  dictionary that is iterated in insertion order, hence an association list; the
  per-event-type entries are dictionaries whose two keys may each be absent.\<close>

record scoring_config =
  weights :: "(string \<times> real) list"
  min_confidence :: real
  baseline_days :: int
  delta_periods :: "int list"

record deduplication_config =
  similarity_threshold :: real
  max_sources_per_cluster :: int
  time_window_hours :: int

record event_type_config =
  severity_base :: "real option"
  sub_score_weights :: "(string \<rightharpoonup> real) option"

record config =
  scoring :: scoring_config
  deduplication :: deduplication_config
  event_types :: "string \<rightharpoonup> event_type_config"
  monitored_countries :: "string list"

text \<open>\<open>Config.get_event_type_config\<close>: the entry of the event type, else the default
  entry.\<close>

definition get_event_type_config :: "config \<Rightarrow> string \<Rightarrow> event_type_config" where
  "get_event_type_config cfg et =
     (case event_types cfg et of
        Some c \<Rightarrow> c
      | None \<Rightarrow> \<lparr> severity_base = Some 0.5, sub_score_weights = Some Map.empty \<rparr>)"

section \<open>Confidence calculator (src/event_extraction.py)\<close>

definition tier_weights :: "(string \<times> real) list" where
  "tier_weights = [(''A'', 0.9), (''B'', 0.7), (''C'', 0.5), (''D'', 0.3)]"

text \<open>\<open>dict.get(key, default)\<close> on an association list.\<close>

definition dict_get :: "('k \<times> 'v) list \<Rightarrow> 'k \<Rightarrow> 'v \<Rightarrow> 'v" where
  "dict_get d k dflt = (case map_of d k of Some v \<Rightarrow> v | None \<Rightarrow> dflt)"

text \<open>\<open>EventExtractor._calculate_confidence\<close>. The local \<open>base_confidence\<close> is
  reassigned three times; each \<open>let\<close> below is one assignment.\<close>

definition calculate_confidence :: "raw_source list \<Rightarrow> real" where
  "calculate_confidence srcs =
     (case srcs of
        [] \<Rightarrow> 0
      | primary # _ \<Rightarrow>
          (let base0 = dict_get tier_weights (tier_value (tier primary)) 0.5;
               unique_sources = card (set (map source_name srcs));
               base1 = (if unique_sources \<ge> 2 then min 1 (base0 + 0.1) else base0);
               base2 = (if unique_sources \<ge> 3 then min 1 (base1 + 0.1) else base1);
               base3 = (if list_all (\<lambda>s. tier_value (tier s) = ''D'') srcs
                        then min base2 0.3 else base2)
           in base3))"

section \<open>Library functions taken as given\<close>

text \<open>
  Functions of Python's standard library and of SQLite that the code calls. The model
  takes them as parameters: SQLite's \<open>LIKE\<close> operator (pattern first), \<open>datetime.isoformat\<close>,
  the hexadecimal SHA-256 digest of a string, and the \<open>netloc\<close> of \<open>urllib.parse.urlparse\<close>
  (\<open>None\<close> where \<open>urlparse\<close> raises).
\<close>

record library =
  sql_like :: "string \<Rightarrow> string \<Rightarrow> bool"
  isoformat :: "int \<Rightarrow> string"
  sha256_hexdigest :: "string \<Rightarrow> string"
  urlparse_netloc :: "string \<Rightarrow> string option"

section \<open>Storage (src/storage.py)\<close>

text \<open>
  The SQLite tables the scoring and correlation engines touch, each a list of rows in
  insertion order. A row of \<open>historical_assessments\<close> holds the five columns the insert
  writes (its autoincrement id is the row's position). The JSON and ISO-8601 encodings
  of the columns are read back as they were written.
\<close>

record hist_row =
  h_assessment_id :: string
  h_target :: string
  h_overall_score :: real
  h_sub_scores :: "sub_score list"
  h_generated_at :: int

record storage =
  events_tbl :: "event list"
  assessments_tbl :: "assessment list"
  historical_assessments :: "hist_row list"

definition microseconds_per_day :: int where
  "microseconds_per_day = 86400 * 1000000"

text \<open>\<open>timedelta(days=n)\<close>.\<close>

definition timedelta_days :: "int \<Rightarrow> int" where
  "timedelta_days n = n * microseconds_per_day"

text \<open>\<open>Storage.get_events_by_location\<close>: \<open>WHERE location LIKE '%loc%' ORDER BY timestamp
  DESC LIMIT limit\<close>. Rows of equal timestamp come in an order SQL leaves open; here the
  later-inserted first.\<close>

definition get_events_by_location :: "library \<Rightarrow> storage \<Rightarrow> string \<Rightarrow> nat \<Rightarrow> event list" where
  "get_events_by_location lib st loc limit =
     take limit (rev (sort_key timestamp
       (filter (\<lambda>e. sql_like lib (''%'' @ loc @ ''%'') (location e)) (events_tbl st))))"

text \<open>\<open>Storage.get_events_by_time_range\<close>: \<open>WHERE timestamp >= start AND timestamp <= end
  ORDER BY timestamp DESC\<close>.\<close>

definition get_events_by_time_range :: "storage \<Rightarrow> int \<Rightarrow> int \<Rightarrow> event list" where
  "get_events_by_time_range st start stop =
     rev (sort_key timestamp
       (filter (\<lambda>e. start \<le> timestamp e \<and> timestamp e \<le> stop) (events_tbl st)))"

text \<open>\<open>Storage.save_assessment\<close>: \<open>INSERT OR REPLACE\<close> into \<open>assessments\<close> (primary key
  \<open>assessment_id\<close>: a row of the same id is deleted, the new one added), then a plain
  \<open>INSERT\<close> into \<open>historical_assessments\<close>.\<close>

definition save_assessment :: "storage \<Rightarrow> assessment \<Rightarrow> storage" where
  "save_assessment st a =
     st \<lparr> assessments_tbl :=
            filter (\<lambda>b. assessment_id b \<noteq> assessment_id a) (assessments_tbl st) @ [a],
          historical_assessments :=
            historical_assessments st @
              [\<lparr> h_assessment_id = assessment_id a, h_target = target a,
                 h_overall_score = overall_score a, h_sub_scores = sub_scores a,
                 h_generated_at = generated_at a \<rparr>] \<rparr>"

text \<open>The \<open>Assessment\<close> that \<open>get_historical_assessments\<close> builds from a row.\<close>

definition row_to_historical :: "hist_row \<Rightarrow> assessment" where
  "row_to_historical r =
     \<lparr> assessment_id = h_assessment_id r, target = h_target r,
       overall_score = h_overall_score r, sub_scores = h_sub_scores r,
       delta_7d = 0, delta_30d = 0, delta_90d = 0, drivers = [], a_confidence = 0.5,
       generated_at = h_generated_at r \<rparr>"

text \<open>\<open>Storage.get_historical_assessments\<close>: \<open>WHERE target = ? AND generated_at >= cutoff
  ORDER BY generated_at ASC\<close>, the cutoff being \<open>days\<close> days before now.\<close>

definition get_historical_assessments :: "storage \<Rightarrow> int \<Rightarrow> string \<Rightarrow> int \<Rightarrow> assessment list" where
  "get_historical_assessments st now tgt days =
     (let cutoff_date = now - timedelta_days days
      in map row_to_historical
           (sort_key h_generated_at
              (filter (\<lambda>r. h_target r = tgt \<and> h_generated_at r \<ge> cutoff_date)
                 (historical_assessments st))))"

section \<open>Scoring engine (src/scoring.py)\<close>

text \<open>\<open>event_config.get('severity_base', 0.5)\<close> of the event type's configuration.\<close>

definition severity_of :: "config \<Rightarrow> event_type \<Rightarrow> real" where
  "severity_of cfg k =
     (case severity_base (get_event_type_config cfg (event_type_value k)) of
        Some s \<Rightarrow> s | None \<Rightarrow> 0.5)"

text \<open>\<open>event_config.get('sub_score_weights', {}).get(dimension, 0.0)\<close>.\<close>

definition dimension_weight_of :: "config \<Rightarrow> event_type \<Rightarrow> string \<Rightarrow> real" where
  "dimension_weight_of cfg k dimension =
     (case sub_score_weights (get_event_type_config cfg (event_type_value k)) of
        None \<Rightarrow> 0
      | Some m \<Rightarrow> (case m dimension of Some w \<Rightarrow> w | None \<Rightarrow> 0))"

text \<open>The loop of \<open>ScoringEngine._calculate_dimension_impact\<close>, \<open>total_impact\<close> its
  accumulator; an event of dimension weight 0 is skipped by \<open>continue\<close>.\<close>

fun dimension_impact_loop :: "config \<Rightarrow> string \<Rightarrow> event list \<Rightarrow> real \<Rightarrow> real" where
  "dimension_impact_loop cfg dimension [] total_impact = total_impact"
| "dimension_impact_loop cfg dimension (e # es) total_impact =
     (let severity = severity_of cfg (event_type e);
          dimension_weight = dimension_weight_of cfg (event_type e) dimension
      in if dimension_weight = 0 then dimension_impact_loop cfg dimension es total_impact
         else dimension_impact_loop cfg dimension es
                (total_impact + severity * dimension_weight * confidence e * 20))"

definition calculate_dimension_impact :: "config \<Rightarrow> string \<Rightarrow> event list \<Rightarrow> real" where
  "calculate_dimension_impact cfg dimension evs = dimension_impact_loop cfg dimension evs 0"

text \<open>The loop of \<open>ScoringEngine._calculate_overall_score\<close> over the sub-scores, with
  its two accumulators \<open>total\<close> (here \<open>total_value\<close>) and \<open>total_weight\<close>.\<close>

fun overall_score_loop :: "config \<Rightarrow> sub_score list \<Rightarrow> real \<Rightarrow> real \<Rightarrow> real \<times> real" where
  "overall_score_loop cfg [] total_value total_weight = (total_value, total_weight)"
| "overall_score_loop cfg (s # ss) total_value total_weight =
     (let weight = dict_get (weights (scoring cfg)) (ss_name s) 0
      in overall_score_loop cfg ss (total_value + ss_value s * weight) (total_weight + weight))"

definition calculate_overall_score :: "config \<Rightarrow> sub_score list \<Rightarrow> real" where
  "calculate_overall_score cfg ss =
     (case overall_score_loop cfg ss 0 0 of
        (total_value, total_weight) \<Rightarrow>
          if total_weight = 0 then 70 else total_value / total_weight)"

text \<open>The dictionary \<open>{'7d': _, '30d': _, '90d': _}\<close> the delta functions return.\<close>

record deltas =
  d_7d :: real
  d_30d :: real
  d_90d :: real

text \<open>The scan shared by the closures \<open>find_closest_score\<close> and
  \<open>find_closest_sub_score\<close>: \<open>closest\<close> starts as \<open>None\<close>, \<open>min_diff\<close> as infinity
  (\<open>None\<close> here), and a snapshot replaces the current one only when strictly nearer.\<close>

fun closest_loop :: "int \<Rightarrow> assessment list \<Rightarrow> assessment option \<Rightarrow> int option \<Rightarrow> assessment option" where
  "closest_loop target_date [] closest min_diff = closest"
| "closest_loop target_date (a # as) closest min_diff =
     (let diff = \<bar>generated_at a - target_date\<bar>
      in if (case min_diff of None \<Rightarrow> True | Some m \<Rightarrow> diff < m)
         then closest_loop target_date as (Some a) (Some diff)
         else closest_loop target_date as closest min_diff)"

definition find_closest_score :: "assessment list \<Rightarrow> real \<Rightarrow> int \<Rightarrow> real" where
  "find_closest_score hist current_score target_date =
     (case closest_loop target_date hist None None of
        Some a \<Rightarrow> overall_score a
      | None \<Rightarrow> current_score)"

definition find_closest_sub_score :: "assessment list \<Rightarrow> string \<Rightarrow> real \<Rightarrow> int \<Rightarrow> real" where
  "find_closest_sub_score hist dimension current_value target_date =
     (case closest_loop target_date hist None None of
        Some a \<Rightarrow>
          (case get_sub_score (sub_scores a) dimension of
             Some s \<Rightarrow> ss_value s
           | None \<Rightarrow> current_value)
      | None \<Rightarrow> current_value)"

text \<open>\<open>ScoringEngine._calculate_deltas\<close>.\<close>

definition calculate_deltas :: "storage \<Rightarrow> int \<Rightarrow> string \<Rightarrow> real \<Rightarrow> deltas" where
  "calculate_deltas st now tgt current_score =
     (let hist = get_historical_assessments st now tgt 90
      in if hist = [] then \<lparr> d_7d = 0, d_30d = 0, d_90d = 0 \<rparr>
         else
           (let score_7d = find_closest_score hist current_score (now - timedelta_days 7);
                score_30d = find_closest_score hist current_score (now - timedelta_days 30);
                score_90d = find_closest_score hist current_score (now - timedelta_days 90)
            in \<lparr> d_7d = current_score - score_7d, d_30d = current_score - score_30d,
                 d_90d = current_score - score_90d \<rparr>))"

text \<open>\<open>ScoringEngine._calculate_sub_score_deltas\<close>.\<close>

definition calculate_sub_score_deltas :: "storage \<Rightarrow> int \<Rightarrow> string \<Rightarrow> string \<Rightarrow> real \<Rightarrow> deltas" where
  "calculate_sub_score_deltas st now tgt dimension current_value =
     (let hist = get_historical_assessments st now tgt 90
      in if hist = [] then \<lparr> d_7d = 0, d_30d = 0, d_90d = 0 \<rparr>
         else
           (let value_7d = find_closest_sub_score hist dimension current_value (now - timedelta_days 7);
                value_30d = find_closest_sub_score hist dimension current_value (now - timedelta_days 30);
                value_90d = find_closest_sub_score hist dimension current_value (now - timedelta_days 90)
            in \<lparr> d_7d = current_value - value_7d, d_30d = current_value - value_30d,
                 d_90d = current_value - value_90d \<rparr>))"

text \<open>\<open>scored_events.sort(reverse=True)\<close> on (score, id) pairs, then the ids of the first
  \<open>limit\<close>: pairs that compare equal are the same pair, so the descending order is the
  reverse of the ascending one.\<close>

definition top_ids :: "(real \<times> string) list \<Rightarrow> nat \<Rightarrow> string list" where
  "top_ids scored_events limit = map snd (take limit (rev (sort scored_events)))"

text \<open>\<open>ScoringEngine._get_top_drivers\<close>.\<close>

definition get_top_drivers :: "config \<Rightarrow> event list \<Rightarrow> nat \<Rightarrow> string list" where
  "get_top_drivers cfg evs limit =
     top_ids (map (\<lambda>e. (severity_of cfg (event_type e) * confidence e, event_id e)) evs) limit"

text \<open>\<open>ScoringEngine._get_dimension_drivers\<close>.\<close>

definition get_dimension_drivers :: "config \<Rightarrow> string \<Rightarrow> event list \<Rightarrow> nat \<Rightarrow> string list" where
  "get_dimension_drivers cfg dimension evs limit =
     top_ids
       (map (\<lambda>e. (severity_of cfg (event_type e) * dimension_weight_of cfg (event_type e) dimension
                    * confidence e, event_id e))
          (filter (\<lambda>e. dimension_weight_of cfg (event_type e) dimension \<noteq> 0) evs))
       limit"

text \<open>\<open>ScoringEngine._calculate_assessment_confidence\<close>.\<close>

definition calculate_assessment_confidence :: "event list \<Rightarrow> real" where
  "calculate_assessment_confidence evs =
     (if evs = [] then 0.3
      else
        (let avg_confidence = sum_list (map confidence evs) / real (length evs)
         in if length evs \<ge> 5 then min 1 (avg_confidence + 0.1) else avg_confidence))"

text \<open>One iteration of the loop of \<open>ScoringEngine._calculate_sub_scores\<close>: the sub-score
  of the dimension \<open>name\<close>.\<close>

definition calculate_sub_score :: "config \<Rightarrow> storage \<Rightarrow> int \<Rightarrow> string \<Rightarrow> event list \<Rightarrow> string \<Rightarrow> sub_score" where
  "calculate_sub_score cfg st now tgt evs name =
     (let baseline = 70;
          impact = calculate_dimension_impact cfg name evs;
          score_value = max 0 (min 100 (baseline - impact));
          ds = calculate_sub_score_deltas st now tgt name score_value;
          drv = get_dimension_drivers cfg name evs 3
      in \<lparr> ss_name = name, ss_value = score_value, ss_delta_7d = d_7d ds,
           ss_delta_30d = d_30d ds, ss_delta_90d = d_90d ds, ss_drivers = drv \<rparr>)"

text \<open>\<open>ScoringEngine._calculate_sub_scores\<close>: one sub-score per key of the configured
  weights, in their order.\<close>

definition calculate_sub_scores :: "config \<Rightarrow> storage \<Rightarrow> int \<Rightarrow> string \<Rightarrow> event list \<Rightarrow> sub_score list" where
  "calculate_sub_scores cfg st now tgt evs =
     map (calculate_sub_score cfg st now tgt evs) (map fst (weights (scoring cfg)))"

text \<open>\<open>ScoringEngine.calculate_assessment\<close>, returning the assessment together with
  the storage as the call leaves it. The engine only reads the storage
  (\<open>get_events_by_location\<close>, \<open>get_historical_assessments\<close>).\<close>

definition calculate_assessment ::
    "config \<Rightarrow> library \<Rightarrow> int \<Rightarrow> storage \<Rightarrow> string \<Rightarrow> event list option \<Rightarrow> assessment \<times> storage" where
  "calculate_assessment cfg lib now st tgt events_arg =
     (let evs = (case events_arg of
                   None \<Rightarrow> get_events_by_location lib st tgt 100
                 | Some es \<Rightarrow> es);
          valid_events = filter (\<lambda>e. confidence e \<ge> min_confidence (scoring cfg)) evs;
          sub = calculate_sub_scores cfg st now tgt valid_events;
          overall = calculate_overall_score cfg sub;
          ds = calculate_deltas st now tgt overall;
          drv = get_top_drivers cfg valid_events 5;
          conf = calculate_assessment_confidence valid_events
      in (\<lparr> assessment_id = ''assess_'' @ tgt @ ''_'' @ isoformat lib now, target = tgt,
            overall_score = overall, sub_scores = sub, delta_7d = d_7d ds,
            delta_30d = d_30d ds, delta_90d = d_90d ds, drivers = drv,
            a_confidence = conf, generated_at = now \<rparr>, st))"

text \<open>The scoring step of \<open>Pipeline.run\<close> for one country (src/pipeline.py, step 5):
  the assessment is calculated, then the pipeline saves it.\<close>

definition pipeline_score_country ::
    "config \<Rightarrow> library \<Rightarrow> int \<Rightarrow> storage \<Rightarrow> string \<Rightarrow> event list \<Rightarrow> storage" where
  "pipeline_score_country cfg lib now st country country_events =
     (case calculate_assessment cfg lib now st country (Some country_events) of
        (a, st') \<Rightarrow> save_assessment st' a)"

section \<open>Strings\<close>

text \<open>\<open>str.lower\<close> on the ASCII letters.\<close>

definition lower_char :: "char \<Rightarrow> char" where
  "lower_char c =
     (case map_of (zip ''ABCDEFGHIJKLMNOPQRSTUVWXYZ'' ''abcdefghijklmnopqrstuvwxyz'') c of
        Some l \<Rightarrow> l
      | None \<Rightarrow> c)"

definition lower :: "string \<Rightarrow> string" where
  "lower s = map lower_char s"

text \<open>The ASCII characters \<open>str.split()\<close> and \<open>str.strip()\<close> take for whitespace:
  tab, line feed, vertical tab, form feed, carriage return, the four separators
  0x1C to 0x1F, and the space.\<close>

definition is_space :: "char \<Rightarrow> bool" where
  "is_space c \<longleftrightarrow>
     c \<in> set [CHR 0x09, CHR 0x0A, CHR 0x0B, CHR 0x0C, CHR 0x0D,
                CHR 0x1C, CHR 0x1D, CHR 0x1E, CHR 0x1F, CHR '' '']"

text \<open>\<open>str.split()\<close>: the maximal runs of characters that are not whitespace; \<open>cur\<close> is
  the word being read.\<close>

fun split_from :: "string \<Rightarrow> string \<Rightarrow> string list" where
  "split_from cur [] = (if cur = [] then [] else [cur])"
| "split_from cur (c # cs) =
     (if is_space c then (if cur = [] then split_from [] cs else cur # split_from [] cs)
      else split_from (cur @ [c]) cs)"

definition split_words :: "string \<Rightarrow> string list" where
  "split_words s = split_from [] s"

text \<open>\<open>str.strip()\<close>.\<close>

definition strip :: "string \<Rightarrow> string" where
  "strip s = rev (dropWhile is_space (rev (dropWhile is_space s)))"

text \<open>\<open>needle in haystack\<close> on strings is \<open>sublist needle haystack\<close>.\<close>

section \<open>Similarity clustering (src/normalization.py)\<close>

text \<open>\<open>NormalizationPipeline._text_similarity\<close>: the Jaccard similarity of the two
  sets of lower-cased words.\<close>

definition text_similarity :: "string \<Rightarrow> string \<Rightarrow> real" where
  "text_similarity text1 text2 =
     (let words1 = set (split_words (lower text1));
          words2 = set (split_words (lower text2))
      in if words1 = {} \<or> words2 = {} then 0
         else
           (let intersection = words1 \<inter> words2;
                union = words1 \<union> words2
            in if union \<noteq> {} then real (card intersection) / real (card union) else 0))"

text \<open>\<open>NormalizationPipeline._same_domain\<close>; an exception of \<open>urlparse\<close> is caught and
  gives \<open>False\<close>.\<close>

definition same_domain :: "library \<Rightarrow> string \<Rightarrow> string \<Rightarrow> bool" where
  "same_domain lib url1 url2 =
     (case urlparse_netloc lib url1 of
        None \<Rightarrow> False
      | Some domain1 \<Rightarrow>
          (case urlparse_netloc lib url2 of
             None \<Rightarrow> False
           | Some domain2 \<Rightarrow> domain1 = domain2))"

text \<open>\<open>s.published_at or s.retrieved_at\<close>: a \<open>datetime\<close> is never falsy.\<close>

definition effective_time :: "raw_source \<Rightarrow> int" where
  "effective_time s = (case published_at s of Some t \<Rightarrow> t | None \<Rightarrow> retrieved_at s)"

text \<open>\<open>timedelta(hours=n)\<close>.\<close>

definition timedelta_hours :: "int \<Rightarrow> int" where
  "timedelta_hours n = n * 3600 * 1000000"

text \<open>\<open>NormalizationPipeline._are_similar\<close>.\<close>

definition are_similar :: "library \<Rightarrow> config \<Rightarrow> raw_source \<Rightarrow> raw_source \<Rightarrow> int \<Rightarrow> bool" where
  "are_similar lib cfg source1 source2 time_window =
     (let time1 = effective_time source1;
          time2 = effective_time source2
      in if \<bar>time1 - time2\<bar> > time_window then False
         else
           (let title_sim = text_similarity (title source1) (title source2)
            in if title_sim > similarity_threshold (deduplication cfg) then True
               else
                 (let content_sim = text_similarity (take 500 (content source1))
                                      (take 500 (content source2))
                  in if content_sim > similarity_threshold (deduplication cfg) then True
                     else if same_domain lib (url source1) (url source2)
                     then (if content_sim > 0.5 then True else False)
                     else False)))"

text \<open>The inner loop of \<open>cluster_sources\<close>: every source that is not yet processed and is
  similar to the anchor \<open>source\<close> joins the cluster and is marked processed.\<close>

fun find_similar_loop ::
    "library \<Rightarrow> config \<Rightarrow> int \<Rightarrow> raw_source \<Rightarrow> raw_source list
      \<Rightarrow> raw_source list \<times> string set \<Rightarrow> raw_source list \<times> string set" where
  "find_similar_loop lib cfg time_window source [] (cluster, processed) = (cluster, processed)"
| "find_similar_loop lib cfg time_window source (other # rest) (cluster, processed) =
     (if source_id other \<in> processed
      then find_similar_loop lib cfg time_window source rest (cluster, processed)
      else if are_similar lib cfg source other time_window
      then find_similar_loop lib cfg time_window source rest
             (cluster @ [other], insert (source_id other) processed)
      else find_similar_loop lib cfg time_window source rest (cluster, processed))"

text \<open>The outer loop of \<open>cluster_sources\<close> over the sorted sources; \<open>sorted_sources\<close> is
  the whole sorted list, which the inner loop scans each time.\<close>

fun cluster_loop ::
    "library \<Rightarrow> config \<Rightarrow> int \<Rightarrow> raw_source list \<Rightarrow> raw_source list
      \<Rightarrow> raw_source list list \<times> string set \<Rightarrow> raw_source list list" where
  "cluster_loop lib cfg time_window sorted_sources [] (clusters, processed) = clusters"
| "cluster_loop lib cfg time_window sorted_sources (source # rest) (clusters, processed) =
     (if source_id source \<in> processed
      then cluster_loop lib cfg time_window sorted_sources rest (clusters, processed)
      else
        (case find_similar_loop lib cfg time_window source sorted_sources
                ([source], insert (source_id source) processed) of
           (cluster, processed') \<Rightarrow>
             cluster_loop lib cfg time_window sorted_sources rest
               (clusters @ [cluster], processed')))"

text \<open>\<open>NormalizationPipeline.cluster_sources\<close>; \<open>sorted\<close> is stable, as \<open>sort_key\<close> is.\<close>

definition cluster_sources :: "library \<Rightarrow> config \<Rightarrow> raw_source list \<Rightarrow> raw_source list list" where
  "cluster_sources lib cfg srcs =
     (let time_window = timedelta_hours (time_window_hours (deduplication cfg));
          sorted_sources = sort_key effective_time srcs
      in cluster_loop lib cfg time_window sorted_sources sorted_sources ([], {}))"

section \<open>Event extraction (src/event_extraction.py)\<close>

text \<open>
  The regular expressions of the pattern table are of two shapes only: a literal, and
  two literals joined by \<open>.*\<close>. \<open>re.search\<close> finds a literal anywhere in the text; it
  finds \<open>l.*r\<close> where \<open>l\<close> occurs and \<open>r\<close> occurs after it with no line feed in between
  (\<open>.\<close> does not match a line feed, and no literal of the table contains one). The text
  is lower-cased before the search and the patterns are lower-case, so the flag
  \<open>re.IGNORECASE\<close> changes nothing on ASCII text.
\<close>

datatype pattern = Lit string | Gap string string

fun re_search :: "pattern \<Rightarrow> string \<Rightarrow> bool" where
  "re_search (Lit p) hay = sublist p hay"
| "re_search (Gap l r) hay =
     list_ex (\<lambda>s. if prefix l s
                   then sublist r (takeWhile (\<lambda>c. c \<noteq> CHR 0x0A) (drop (length l) s))
                   else False)
       (suffixes hay)"

text \<open>The dictionary \<open>patterns\<close> of \<open>_detect_event_type\<close>, in its declaration order,
  which is the order a Python dictionary is iterated in.\<close>

definition patterns :: "(event_type \<times> pattern list) list" where
  "patterns =
     [(GOVERNMENT_CHANGE,
         [Gap ''government'' ''change'', Gap ''leadership'' ''transition'',
          Gap ''new'' ''prime minister'', Gap ''president'' ''resign'', Lit ''coup'',
          Lit ''overthrow'']),
      (ELECTION,
         [Lit ''election'', Lit ''vote'', Lit ''ballot'', Lit ''referendum'', Lit ''polling'']),
      (SANCTIONS,
         [Lit ''sanction'', Lit ''embargo'', Lit ''trade ban'', Gap ''economic'' ''penalty'']),
      (ARMED_CONFLICT,
         [Lit ''armed conflict'', Lit ''war'', Lit ''battle'', Gap ''military'' ''attack'',
          Lit ''airstrike'', Lit ''bombing'', Lit ''combat'']),
      (CEASEFIRE,
         [Lit ''ceasefire'', Lit ''truce'', Gap ''peace'' ''agreement'', Lit ''armistice'']),
      (TERRORIST_ATTACK,
         [Gap ''terrorist'' ''attack'', Lit ''bombing'', Lit ''assassination'',
          Lit ''insurgent'']),
      (CIVIL_UNREST,
         [Lit ''protest'', Lit ''demonstration'', Lit ''riot'', Gap ''civil'' ''unrest'',
          Lit ''strike'', Lit ''uprising'']),
      (BORDER_INCIDENT,
         [Gap ''border'' ''incident'', Gap ''territorial'' ''dispute'', Gap ''border'' ''clash'']),
      (TRADE_RESTRICTION,
         [Gap ''trade'' ''restriction'', Lit ''tariff'', Gap ''import'' ''ban'',
          Gap ''export'' ''ban'']),
      (ECONOMIC_CRISIS,
         [Gap ''economic'' ''crisis'', Lit ''recession'', Gap ''inflation'' ''surge'',
          Gap ''currency'' ''collapse'', Lit ''default'']),
      (INFRASTRUCTURE_DISRUPTION,
         [Gap ''infrastructure'' ''disruption'', Gap ''pipeline'' ''attack'',
          Gap ''port'' ''closure'', Gap ''power'' ''outage'', Gap ''grid'' ''failure'']),
      (NATURAL_DISASTER,
         [Lit ''earthquake'', Lit ''flood'', Lit ''tsunami'', Gap ''natural'' ''disaster'']),
      (DIPLOMATIC_RUPTURE,
         [Gap ''diplomatic'' ''rupture'', Gap ''recall'' ''envoy'', Gap ''expel'' ''diplomat'',
          Gap ''break'' ''relations'']),
      (MILITARY_MOBILIZATION,
         [Gap ''military'' ''mobilization'', Gap ''troop'' ''movement'',
          Gap ''military'' ''exercise'', Lit ''deployment'']),
      (CYBER_INCIDENT,
         [Gap ''cyber'' ''attack'', Lit ''hack'', Gap ''data'' ''breach'',
          Gap ''cyber'' ''incident'']),
      (LEGAL_CHANGE,
         [Gap ''law'' ''change'', Gap ''regulation'' ''change'', Gap ''legal'' ''reform'',
          Gap ''constitutional'' ''change'']),
      (STRATEGIC_INVESTMENT,
         [Gap ''strategic'' ''investment'', Lit ''nationalization'', Gap ''state'' ''takeover''])]"

text \<open>The inner loop of \<open>_detect_event_type\<close> over the patterns of one event type: it
  returns the event type at the first pattern found, and falls through otherwise.\<close>

fun type_patterns_loop :: "event_type \<Rightarrow> pattern list \<Rightarrow> string \<Rightarrow> event_type option" where
  "type_patterns_loop et [] hay = None"
| "type_patterns_loop et (p # ps) hay =
     (if re_search p hay then Some et else type_patterns_loop et ps hay)"

text \<open>The outer loop over the entries of the table.\<close>

fun patterns_loop :: "(event_type \<times> pattern list) list \<Rightarrow> string \<Rightarrow> event_type option" where
  "patterns_loop [] hay = None"
| "patterns_loop ((et, type_patterns) # rest) hay =
     (case type_patterns_loop et type_patterns hay of
        Some found \<Rightarrow> Some found
      | None \<Rightarrow> patterns_loop rest hay)"

text \<open>\<open>EventExtractor._detect_event_type\<close>.\<close>

definition detect_event_type :: "raw_source \<Rightarrow> event_type option" where
  "detect_event_type s = patterns_loop patterns (lower (title s @ '' '' @ content s))"

text \<open>Either loop of \<open>_extract_location\<close>: the first monitored country whose lower-cased
  name occurs in the lower-cased text.\<close>

fun country_loop :: "string list \<Rightarrow> string \<Rightarrow> string option" where
  "country_loop [] hay = None"
| "country_loop (country # rest) hay =
     (if sublist (lower country) hay then Some country else country_loop rest hay)"

text \<open>\<open>EventExtractor._extract_location\<close>: the loop over title and body, then the same
  loop over the title.\<close>

definition extract_location :: "config \<Rightarrow> raw_source \<Rightarrow> string option" where
  "extract_location cfg s =
     (case country_loop (monitored_countries cfg) (lower (title s @ '' '' @ content s)) of
        Some country \<Rightarrow> Some country
      | None \<Rightarrow>
          (case country_loop (monitored_countries cfg) (lower (title s)) of
             Some country \<Rightarrow> Some country
           | None \<Rightarrow> None))"

text \<open>\<open>EventExtractor._build_summary\<close>; \<open>content.split('.')[0]\<close> is the body up to its
  first full stop.\<close>

definition build_summary :: "raw_source \<Rightarrow> string" where
  "build_summary s =
     (let first_sentence = strip (takeWhile (\<lambda>c. c \<noteq> CHR ''.'') (content s));
          summary0 = title s;
          summary1 = (if first_sentence \<noteq> [] \<and> \<not> sublist (lower first_sentence) (lower summary0)
                      then summary0 @ ''. '' @ first_sentence else summary0)
      in take 500 summary1)"

text \<open>The dictionary \<open>type_tags\<close> of \<open>_extract_impact_tags\<close>, with \<open>[]\<close> for a type it
  does not hold.\<close>

fun type_tags :: "event_type \<Rightarrow> string list" where
  "type_tags SANCTIONS = [''trade'', ''economic'']"
| "type_tags TRADE_RESTRICTION = [''trade'', ''economic'']"
| "type_tags ARMED_CONFLICT = [''security'', ''infrastructure'']"
| "type_tags INFRASTRUCTURE_DISRUPTION = [''infrastructure'', ''economic'']"
| "type_tags CYBER_INCIDENT = [''infrastructure'', ''security'']"
| "type_tags _ = []"

text \<open>\<open>EventExtractor._extract_impact_tags\<close>, as the set of the tags.\<close>

definition extract_impact_tags :: "raw_source \<Rightarrow> event_type \<Rightarrow> string set" where
  "extract_impact_tags s et =
     (let hay = lower (content s)
      in set (type_tags et)
         \<union> (if list_ex (\<lambda>w. sublist w hay) [''trade'', ''export'', ''import'']
             then {''trade''} else {})
         \<union> (if list_ex (\<lambda>w. sublist w hay) [''security'', ''military'', ''defense'']
             then {''security''} else {})
         \<union> (if list_ex (\<lambda>w. sublist w hay) [''infrastructure'', ''port'', ''pipeline'']
             then {''infrastructure''} else {}))"

text \<open>\<open>EventExtractor._generate_event_id\<close>: the first 16 characters of the digest.\<close>

definition generate_event_id :: "library \<Rightarrow> event_type \<Rightarrow> string \<Rightarrow> int \<Rightarrow> string \<Rightarrow> string" where
  "generate_event_id lib et loc ts sid =
     take 16 (sha256_hexdigest lib
       (event_type_value et @ ''|'' @ loc @ ''|'' @ isoformat lib ts @ ''|'' @ sid))"

text \<open>The slice \<open>xs[:n]\<close>; a negative \<open>n\<close> counts from the end.\<close>

definition slice_to :: "int \<Rightarrow> 'a list \<Rightarrow> 'a list" where
  "slice_to n xs = (if n \<ge> 0 then take (nat n) xs else take (length xs - nat (- n)) xs)"

datatype py_error = IndexError

text \<open>\<open>EventExtractor.extract_events\<close>. \<open>source_cluster[0]\<close> raises \<open>IndexError\<close> on an
  empty cluster; \<open>not location\<close> holds for \<open>None\<close> and for the empty name. The event is
  built with both clock fields at \<open>now\<close> and the default label, then
  \<open>update_confidence\<close> sets confidence, label and \<open>updated_at\<close>.\<close>

definition extract_events :: "library \<Rightarrow> config \<Rightarrow> int \<Rightarrow> raw_source list \<Rightarrow> py_error + event list" where
  "extract_events lib cfg now source_cluster =
     (case source_cluster of
        [] \<Rightarrow> Inl IndexError
      | primary_source # _ \<Rightarrow>
          (case detect_event_type primary_source of
             None \<Rightarrow> Inr []
           | Some et \<Rightarrow>
               (case extract_location cfg primary_source of
                  None \<Rightarrow> Inr []
                | Some loc \<Rightarrow>
                    if loc = [] then Inr []
                    else
                      (let ts = effective_time primary_source;
                           conf = calculate_confidence source_cluster;
                           ev = \<lparr> event_id = generate_event_id lib et loc ts
                                               (source_id primary_source),
                                  event_type = et, timestamp = ts, location = loc,
                                  summary = build_summary primary_source,
                                  location_geo = None, entities = [],
                                  sources = map to_citation
                                    (slice_to (max_sources_per_cluster (deduplication cfg))
                                       source_cluster),
                                  confidence = conf, confidence_label = MEDIUM,
                                  impact_tags = extract_impact_tags primary_source et,
                                  evidence_links = map url source_cluster,
                                  created_at = now, updated_at = now \<rparr>
                       in Inr [update_confidence now ev conf]))))"

section \<open>Correlation engine (src/correlation.py)\<close>

text \<open>\<open>EventCorrelator._calculate_correlation\<close>; each \<open>let\<close> is one update of \<open>score\<close>.
  86400 and 604800 seconds are written in microseconds.\<close>

definition calculate_correlation :: "event \<Rightarrow> event \<Rightarrow> real" where
  "calculate_correlation event1 event2 =
     (let score0 = 0;
          score1 = (if lower (location event1) = lower (location event2)
                    then score0 + 0.3 else score0);
          score2 = (if event_type event1 = event_type event2 then score1 + 0.3 else score1);
          time_diff = \<bar>timestamp event1 - timestamp event2\<bar>;
          score3 = (if time_diff < 86400 * 1000000 then score2 + 0.2
                    else if time_diff < 604800 * 1000000 then score2 + 0.1
                    else score2);
          score4 = (if set (entities event1) \<inter> set (entities event2) \<noteq> {}
                    then score3 + 0.2 else score3)
      in min score4 1)"

text \<open>The loop of \<open>find_correlated_events\<close> over the events of the time window;
  \<open>correlated\<close> is the list it appends to.\<close>

fun correlated_loop :: "event \<Rightarrow> event list \<Rightarrow> event list \<Rightarrow> event list" where
  "correlated_loop ev [] correlated = correlated"
| "correlated_loop ev (other_event # rest) correlated =
     (if event_id other_event = event_id ev then correlated_loop ev rest correlated
      else if calculate_correlation ev other_event > 0.5
      then correlated_loop ev rest (correlated @ [other_event])
      else correlated_loop ev rest correlated)"

text \<open>\<open>EventCorrelator.find_correlated_events\<close>.\<close>

definition find_correlated_events :: "storage \<Rightarrow> event \<Rightarrow> int \<Rightarrow> event list" where
  "find_correlated_events st ev time_window_days =
     (let window_start = timestamp ev - timedelta_days time_window_days;
          window_end = timestamp ev + timedelta_days time_window_days;
          all_events = get_events_by_time_range st window_start window_end
      in correlated_loop ev all_events [])"

section \<open>Notions the claims are stated with\<close>

text \<open>The entry of a delta dictionary for a horizon of 7, 30 or 90 days.\<close>

definition delta_for :: "int \<Rightarrow> deltas \<Rightarrow> real" where
  "delta_for h ds = (if h = 7 then d_7d ds else if h = 30 then d_30d ds else d_90d ds)"

text \<open>The rows of the historical log that belong to a target.\<close>

definition rows_of :: "string \<Rightarrow> storage \<Rightarrow> hist_row list" where
  "rows_of tgt st = filter (\<lambda>r. h_target r = tgt) (historical_assessments st)"

text \<open>The delta as the specification words it: the current value minus the overall
  score of the snapshot of the target, anywhere in its log, that is nearest to \<open>h\<close> days
  before now; 0 for an empty log.\<close>

definition nearest_in_whole_log_delta :: "storage \<Rightarrow> int \<Rightarrow> string \<Rightarrow> int \<Rightarrow> real \<Rightarrow> real" where
  "nearest_in_whole_log_delta st now tgt h cur =
     (case rows_of tgt st of
        [] \<Rightarrow> 0
      | r # rs \<Rightarrow>
          cur - h_overall_score
                  (arg_min_list (\<lambda>x. \<bar>h_generated_at x - (now - timedelta_days h)\<bar>) (r # rs)))"

text \<open>The cluster the greedy pass builds around an anchor \<open>a\<close> when the identifiers
  in \<open>processed\<close> are taken: the anchor, then every source, in sorted order, that is
  neither taken nor the anchor and is similar to it.\<close>

definition cluster_of ::
    "library \<Rightarrow> config \<Rightarrow> int \<Rightarrow> raw_source list \<Rightarrow> string set \<Rightarrow> raw_source \<Rightarrow> raw_source list" where
  "cluster_of lib cfg tw all_sources processed a =
     a # filter (\<lambda>other. source_id other \<notin> insert (source_id a) processed
                          \<and> are_similar lib cfg a other tw) all_sources"

text \<open>The invariant of the outer loop of \<open>cluster_sources\<close>: the processed identifiers
  are those of the clustered sources, no identifier is clustered twice, and the i-th
  cluster is the one built around some source when the earlier clusters were taken.\<close>

definition greedy_inv ::
    "library \<Rightarrow> config \<Rightarrow> int \<Rightarrow> raw_source list \<Rightarrow> raw_source list list \<Rightarrow> string set \<Rightarrow> bool" where
  "greedy_inv lib cfg tw all_sources clusters processed \<longleftrightarrow>
     processed = source_id ` set (concat clusters)
     \<and> distinct (map source_id (concat clusters))
     \<and> set (concat clusters) \<subseteq> set all_sources
     \<and> (\<forall>i < length clusters. \<exists>a \<in> set all_sources.
           clusters ! i =
             cluster_of lib cfg tw all_sources (source_id ` set (concat (take i clusters))) a)"

section \<open>Example inputs\<close>

definition empty_storage :: storage where
  "empty_storage = \<lparr> events_tbl = [], assessments_tbl = [], historical_assessments = [] \<rparr>"

text \<open>A log of two snapshots of the target X, taken 9 and 99 days after the epoch.\<close>

definition example_log :: storage where
  "example_log =
     \<lparr> events_tbl = [], assessments_tbl = [],
       historical_assessments =
         [\<lparr> h_assessment_id = ''a1'', h_target = ''X'', h_overall_score = 50,
            h_sub_scores = [], h_generated_at = timedelta_days 9 \<rparr>,
          \<lparr> h_assessment_id = ''a2'', h_target = ''X'', h_overall_score = 60,
            h_sub_scores = [], h_generated_at = timedelta_days 99 \<rparr>] \<rparr>"

definition example_config :: config where
  "example_config =
     \<lparr> scoring = \<lparr> weights = [(''security'', 0.5), (''political'', 0.5)],
                   min_confidence = 0.5, baseline_days = 90, delta_periods = [7, 30, 90] \<rparr>,
       deduplication = \<lparr> similarity_threshold = 0.5, max_sources_per_cluster = 10,
                         time_window_hours = 24 \<rparr>,
       event_types =
         [''armed_conflict'' \<mapsto>
            \<lparr> severity_base = Some 0.9,
              sub_score_weights = Some [''security'' \<mapsto> 1] \<rparr>],
       monitored_countries = [''Country A''] \<rparr>"

text \<open>Stand-ins for the library functions, where a result does not depend on them.\<close>

definition example_library :: library where
  "example_library =
     \<lparr> sql_like = (\<lambda>p s. False), isoformat = (\<lambda>t. ''1970-01-01T00:00:00''),
       sha256_hexdigest = (\<lambda>s. s), urlparse_netloc = (\<lambda>u. None) \<rparr>"

text \<open>Three items published a microsecond apart with empty bodies and different
  hosts. The title similarities are 3/4 (first and second), 3/5 (second and third) and
  2/5 (first and third); the body similarity of any two is 0.\<close>

definition item_c :: raw_source where
  "item_c = \<lparr> source_id = ''1'', url = ''https://a.example/1'', title = ''a b c'',
       content = '''', source_name = ''S1'', tier = Tier_B, language = ''en'',
       published_at = Some 0, retrieved_at = 0 \<rparr>"

definition item_a :: raw_source where
  "item_a = \<lparr> source_id = ''2'', url = ''https://b.example/2'', title = ''a b c d'',
       content = '''', source_name = ''S2'', tier = Tier_B, language = ''en'',
       published_at = Some 1, retrieved_at = 1 \<rparr>"

definition item_b :: raw_source where
  "item_b = \<lparr> source_id = ''3'', url = ''https://c.example/3'', title = ''b c d e'',
       content = '''', source_name = ''S3'', tier = Tier_B, language = ''en'',
       published_at = Some 2, retrieved_at = 2 \<rparr>"

definition clustering_batch :: "raw_source list" where
  "clustering_batch = [item_c, item_a, item_b]"

text \<open>An armed-conflict event of confidence 0.8, as in tests/test_scoring.py.\<close>

definition conflict_event :: event where
  "conflict_event =
     \<lparr> event_id = ''1'', event_type = ARMED_CONFLICT, timestamp = 0,
       location = ''Test Country'', summary = ''Conflict event'', location_geo = None,
       entities = [], sources = [], confidence = 0.8, confidence_label = HIGH,
       impact_tags = {}, evidence_links = [], created_at = 0, updated_at = 0 \<rparr>"

text \<open>Two items on one election, ten minutes apart, from two tier-B sources; an item
  no pattern of the table is found in; and an item in which patterns of two event kinds
  are found.\<close>

definition election_item :: raw_source where
  "election_item = \<lparr> source_id = ''1'', url = ''https://example.com/1'',
       title = ''Election held in Country A'', content = '''', source_name = ''Source1'',
       tier = Tier_B, language = ''en'', published_at = Some 0, retrieved_at = 0 \<rparr>"

definition election_item2 :: raw_source where
  "election_item2 = \<lparr> source_id = ''2'', url = ''https://other.com/2'',
       title = ''Election held in Country A'', content = '''', source_name = ''Source2'',
       tier = Tier_B, language = ''en'', published_at = Some 600000000,
       retrieved_at = 600000000 \<rparr>"

definition election_cluster :: "raw_source list" where
  "election_cluster = [election_item, election_item2]"

definition unrelated_item :: raw_source where
  "unrelated_item = \<lparr> source_id = ''3'', url = ''https://other.com/news'',
       title = ''Quiet day'', content = '''', source_name = ''Other Source'',
       tier = Tier_B, language = ''en'', published_at = Some 0, retrieved_at = 0 \<rparr>"

definition bombing_item :: raw_source where
  "bombing_item = \<lparr> source_id = ''4'', url = ''https://example.com/4'',
       title = ''Terrorist attack: bombing'', content = '''',
       source_name = ''Source1'', tier = Tier_B, language = ''en'',
       published_at = Some 0, retrieved_at = 0 \<rparr>"

text \<open>The example configuration with the empty string as its only monitored name.\<close>

definition empty_name_config :: config where
  "empty_name_config = example_config \<lparr> monitored_countries := [''''] \<rparr>"

text \<open>A second armed-conflict event at the same location one second later, and a
  storage that holds both events.\<close>

definition second_conflict_event :: event where
  "second_conflict_event = conflict_event \<lparr> event_id := ''2'', timestamp := 1000000 \<rparr>"

definition example_events :: storage where
  "example_events = empty_storage \<lparr> events_tbl := [conflict_event, second_conflict_event] \<rparr>"

section \<open>Claims\<close>

subsection \<open>C1: confidence of a cluster\<close>

lemma tier_base_lookup:
  "dict_get tier_weights (tier_value t) 0.5 =
     (case t of Tier_A \<Rightarrow> 0.9 | Tier_B \<Rightarrow> 0.7 | Tier_C \<Rightarrow> 0.5 | Tier_D \<Rightarrow> 0.3)"
  by (cases t) (simp_all add: dict_get_def tier_weights_def)

lemma tier_value_D: "tier_value t = ''D'' \<longleftrightarrow> t = Tier_D"
  by (cases t) simp_all

text \<open>
  C1. For every non-empty cluster the confidence is the base value of the anchor's tier
  (A 0.9, B 0.7, C 0.5, D 0.3), plus 0.1 when the cluster has at least two distinct source
  names and a further 0.1 when it has at least three, each addition capped at 1, and
  capped at 0.3 when every item is tier D. A single tier-B item gives a value in
  [0.6, 0.8], and a second item with another source name gives a strictly larger value.
\<close>

theorem calculate_confidence_spec:
  assumes "srcs \<noteq> []"
  shows "calculate_confidence srcs =
           (let base = (case tier (hd srcs) of
                          Tier_A \<Rightarrow> 0.9 | Tier_B \<Rightarrow> 0.7 | Tier_C \<Rightarrow> 0.5 | Tier_D \<Rightarrow> 0.3);
                n = card (source_name ` set srcs);
                with_two = (if 2 \<le> n then min 1 (base + 0.1) else base);
                with_three = (if 3 \<le> n then min 1 (with_two + 0.1) else with_two)
            in if (\<forall>s \<in> set srcs. tier s = Tier_D) then min with_three 0.3 else with_three)
         \<and> (tier s = Tier_B \<longrightarrow>
              0.6 \<le> calculate_confidence [s] \<and> calculate_confidence [s] \<le> 0.8
              \<and> (source_name s2 \<noteq> source_name s \<longrightarrow>
                   calculate_confidence [s] < calculate_confidence [s, s2]))"
proof -
  obtain p rest where srcs: "srcs = p # rest"
    using assms by (cases srcs) auto
  have all_d: "list_all (\<lambda>s. tier_value (tier s) = ''D'') xs \<longleftrightarrow> (\<forall>s \<in> set xs. tier s = Tier_D)"
    for xs :: "raw_source list"
    by (simp add: list_all_iff tier_value_D)
  have general: "calculate_confidence srcs =
           (let base = (case tier (hd srcs) of
                          Tier_A \<Rightarrow> 0.9 | Tier_B \<Rightarrow> 0.7 | Tier_C \<Rightarrow> 0.5 | Tier_D \<Rightarrow> 0.3);
                n = card (source_name ` set srcs);
                with_two = (if 2 \<le> n then min 1 (base + 0.1) else base);
                with_three = (if 3 \<le> n then min 1 (with_two + 0.1) else with_two)
            in if (\<forall>s \<in> set srcs. tier s = Tier_D) then min with_three 0.3 else with_three)"
    unfolding calculate_confidence_def srcs
    by (simp only: list.case list.sel tier_base_lookup all_d set_map Let_def)
  have single: "calculate_confidence [s] = 0.7" if "tier s = Tier_B"
    using that by (simp add: calculate_confidence_def dict_get_def tier_weights_def)
  have pair: "calculate_confidence [s, s2] = 0.8"
    if "tier s = Tier_B" "source_name s2 \<noteq> source_name s"
    using that by (simp add: calculate_confidence_def dict_get_def tier_weights_def)
  have range: "0.6 \<le> calculate_confidence [s] \<and> calculate_confidence [s] \<le> 0.8"
    if "tier s = Tier_B"
    using single [OF that] by simp
  have grows: "calculate_confidence [s] < calculate_confidence [s, s2]"
    if "tier s = Tier_B" "source_name s2 \<noteq> source_name s"
    using single [OF that(1)] pair [OF that] by simp
  show ?thesis
    using general range grows by blast
qed

theorem calculate_confidence_spec_witness:
  "calculate_confidence
     [\<lparr> source_id = ''1'', url = ''https://example.com/news'', title = ''Test'',
        content = ''Test content'', source_name = ''Source1'', tier = Tier_B,
        language = ''en'', published_at = Some 0, retrieved_at = 0 \<rparr>,
      \<lparr> source_id = ''2'', url = ''https://other.com/news'', title = ''Test'',
        content = ''Test content'', source_name = ''Source2'', tier = Tier_B,
        language = ''en'', published_at = Some 0, retrieved_at = 0 \<rparr>] = 0.8"
  using calculate_confidence_spec
    [of "[\<lparr> source_id = ''1'', url = ''https://example.com/news'', title = ''Test'',
        content = ''Test content'', source_name = ''Source1'', tier = Tier_B,
        language = ''en'', published_at = Some 0, retrieved_at = 0 \<rparr>,
      \<lparr> source_id = ''2'', url = ''https://other.com/news'', title = ''Test'',
        content = ''Test content'', source_name = ''Source2'', tier = Tier_B,
        language = ''en'', published_at = Some 0, retrieved_at = 0 \<rparr>]"]
  by simp

subsection \<open>C2: dimension values and the overall score\<close>

lemma dimension_impact_loop_sum:
  "dimension_impact_loop cfg d evs acc =
     acc + (\<Sum>e\<leftarrow>evs. severity_of cfg (event_type e) * dimension_weight_of cfg (event_type e) d
                      * confidence e * 20)"
  by (induction evs arbitrary: acc) (simp_all add: Let_def)

lemma overall_score_loop_sums:
  "overall_score_loop cfg ss t w =
     (t + (\<Sum>s\<leftarrow>ss. ss_value s * dict_get (weights (scoring cfg)) (ss_name s) 0),
      w + (\<Sum>s\<leftarrow>ss. dict_get (weights (scoring cfg)) (ss_name s) 0))"
  by (induction ss arbitrary: t w) (simp_all add: Let_def)

lemma sub_scores_names:
  "map ss_name (calculate_sub_scores cfg st now tgt evs) = map fst (weights (scoring cfg))"
  by (simp add: calculate_sub_scores_def calculate_sub_score_def Let_def comp_def)

text \<open>
  C2. For every dimension and every list of qualifying events the dimension value is
  70 minus the sum, over the events, of severity base times dimension weight times
  confidence times 20, clamped to [0, 100]; the overall score is the weighted mean of
  the dimension values under the configured weights, and 70 when the weights sum to 0.
  The assessment's sub-scores are those of the configured dimensions over the events
  that pass the confidence threshold, and its overall score is computed from them.
\<close>

theorem scoring_formulas:
  "ss_value (calculate_sub_score cfg st now tgt evs d) =
     max 0 (min 100 (70 - (\<Sum>e\<leftarrow>evs. severity_of cfg (event_type e)
                                   * dimension_weight_of cfg (event_type e) d
                                   * confidence e * 20)))
   \<and> calculate_overall_score cfg ss =
       (if (\<Sum>s\<leftarrow>ss. dict_get (weights (scoring cfg)) (ss_name s) 0) = 0 then 70
        else (\<Sum>s\<leftarrow>ss. ss_value s * dict_get (weights (scoring cfg)) (ss_name s) 0)
             / (\<Sum>s\<leftarrow>ss. dict_get (weights (scoring cfg)) (ss_name s) 0))
   \<and> sub_scores (fst (calculate_assessment cfg lib now st tgt evs_arg)) =
       map (calculate_sub_score cfg st now tgt
              (filter (\<lambda>e. min_confidence (scoring cfg) \<le> confidence e)
                 (case evs_arg of None \<Rightarrow> get_events_by_location lib st tgt 100 | Some es \<Rightarrow> es)))
           (map fst (weights (scoring cfg)))
   \<and> overall_score (fst (calculate_assessment cfg lib now st tgt evs_arg)) =
       calculate_overall_score cfg (sub_scores (fst (calculate_assessment cfg lib now st tgt evs_arg)))"
proof (intro conjI)
  show "ss_value (calculate_sub_score cfg st now tgt evs d) =
     max 0 (min 100 (70 - (\<Sum>e\<leftarrow>evs. severity_of cfg (event_type e)
                                   * dimension_weight_of cfg (event_type e) d
                                   * confidence e * 20)))"
    by (simp add: calculate_sub_score_def calculate_dimension_impact_def
        dimension_impact_loop_sum Let_def)
  show "calculate_overall_score cfg ss =
       (if (\<Sum>s\<leftarrow>ss. dict_get (weights (scoring cfg)) (ss_name s) 0) = 0 then 70
        else (\<Sum>s\<leftarrow>ss. ss_value s * dict_get (weights (scoring cfg)) (ss_name s) 0)
             / (\<Sum>s\<leftarrow>ss. dict_get (weights (scoring cfg)) (ss_name s) 0))"
    by (simp add: calculate_overall_score_def overall_score_loop_sums)
  show "sub_scores (fst (calculate_assessment cfg lib now st tgt evs_arg)) =
       map (calculate_sub_score cfg st now tgt
              (filter (\<lambda>e. min_confidence (scoring cfg) \<le> confidence e)
                 (case evs_arg of None \<Rightarrow> get_events_by_location lib st tgt 100 | Some es \<Rightarrow> es)))
           (map fst (weights (scoring cfg)))"
    by (simp add: calculate_assessment_def calculate_sub_scores_def Let_def)
  show "overall_score (fst (calculate_assessment cfg lib now st tgt evs_arg)) =
       calculate_overall_score cfg (sub_scores (fst (calculate_assessment cfg lib now st tgt evs_arg)))"
    by (simp add: calculate_assessment_def Let_def)
qed

theorem scoring_formulas_witness:
  "ss_value (calculate_sub_score example_config empty_storage 0 ''Test Country''
               [conflict_event] ''security'') = 55.6
   \<and> ss_value (calculate_sub_score example_config empty_storage 0 ''Test Country''
               [conflict_event] ''security'') < 70"
  using scoring_formulas [where cfg = example_config and st = empty_storage and now = 0
      and tgt = "''Test Country''" and evs = "[conflict_event]" and d = "''security''",
      THEN conjunct1]
  by (simp add: severity_of_def dimension_weight_of_def get_event_type_config_def
      example_config_def conflict_event_def)

subsection \<open>C3: deltas against the historical log\<close>

lemma closest_loop_Some:
  "\<exists>a. closest_loop t hist (Some c) (Some \<bar>generated_at c - t\<bar>) = Some a
       \<and> (a = c \<or> a \<in> set hist)
       \<and> \<bar>generated_at a - t\<bar> \<le> \<bar>generated_at c - t\<bar>
       \<and> (\<forall>b \<in> set hist. \<bar>generated_at a - t\<bar> \<le> \<bar>generated_at b - t\<bar>)"
proof (induction hist arbitrary: c)
  case Nil
  then show ?case by simp
next
  case (Cons x xs)
  show ?case
  proof (cases "\<bar>generated_at x - t\<bar> < \<bar>generated_at c - t\<bar>")
    case True
    from Cons.IH [of x] obtain a where
      "closest_loop t xs (Some x) (Some \<bar>generated_at x - t\<bar>) = Some a"
      "a = x \<or> a \<in> set xs"
      "\<bar>generated_at a - t\<bar> \<le> \<bar>generated_at x - t\<bar>"
      "\<forall>b \<in> set xs. \<bar>generated_at a - t\<bar> \<le> \<bar>generated_at b - t\<bar>"
      by blast
    with True show ?thesis by (auto simp: Let_def)
  next
    case False
    from Cons.IH [of c] obtain a where
      "closest_loop t xs (Some c) (Some \<bar>generated_at c - t\<bar>) = Some a"
      "a = c \<or> a \<in> set xs"
      "\<bar>generated_at a - t\<bar> \<le> \<bar>generated_at c - t\<bar>"
      "\<forall>b \<in> set xs. \<bar>generated_at a - t\<bar> \<le> \<bar>generated_at b - t\<bar>"
      by blast
    with False show ?thesis by (auto simp: Let_def)
  qed
qed

lemma closest_loop_nearest:
  assumes "hist \<noteq> []"
  shows "\<exists>a \<in> set hist. closest_loop t hist None None = Some a
           \<and> (\<forall>b \<in> set hist. \<bar>generated_at a - t\<bar> \<le> \<bar>generated_at b - t\<bar>)"
proof -
  obtain x xs where hist: "hist = x # xs"
    using assms by (cases hist) auto
  from closest_loop_Some [of t xs x] obtain a where
    "closest_loop t xs (Some x) (Some \<bar>generated_at x - t\<bar>) = Some a"
    "a = x \<or> a \<in> set xs"
    "\<bar>generated_at a - t\<bar> \<le> \<bar>generated_at x - t\<bar>"
    "\<forall>b \<in> set xs. \<bar>generated_at a - t\<bar> \<le> \<bar>generated_at b - t\<bar>"
    by blast
  then show ?thesis
    unfolding hist by (auto simp: Let_def)
qed

lemma set_get_historical_assessments:
  "set (get_historical_assessments st now tgt days) =
     row_to_historical `
       {r \<in> set (historical_assessments st).
          h_target r = tgt \<and> now - timedelta_days days \<le> h_generated_at r}"
  by (auto simp: get_historical_assessments_def Let_def)

lemma horizon_deltas:
  assumes "h \<in> {7, 30, 90}"
    and "get_historical_assessments st now tgt 90 \<noteq> []"
  shows "delta_for h (calculate_deltas st now tgt cur) =
           cur - find_closest_score (get_historical_assessments st now tgt 90) cur
                   (now - timedelta_days h)"
    and "delta_for h (calculate_sub_score_deltas st now tgt dimension val) =
           val - find_closest_sub_score (get_historical_assessments st now tgt 90) dimension val
                   (now - timedelta_days h)"
  using assms
  by (auto simp: delta_for_def calculate_deltas_def calculate_sub_score_deltas_def Let_def)

lemma example_hist:
  "get_historical_assessments example_log (timedelta_days 100) ''X'' 90 =
     [row_to_historical \<lparr> h_assessment_id = ''a2'', h_target = ''X'', h_overall_score = 60,
            h_sub_scores = [], h_generated_at = timedelta_days 99 \<rparr>]"
  by (simp add: get_historical_assessments_def example_log_def timedelta_days_def
      microseconds_per_day_def)

text \<open>
  C3, as amended. For every horizon of 7, 30 or 90 days: the snapshots consulted are
  those of the target generated within the last 90 days; when there is none (so also
  for an empty log and a first assessment) the overall and the dimension delta are 0;
  otherwise both are taken from one consulted snapshot whose generation time is at
  least as near to the horizon date as that of every other consulted snapshot, the
  overall delta being the current score minus its overall score and the dimension delta
  the current value minus its value for the dimension, or 0 when it records none.
\<close>

theorem deltas_nearest_in_window:
  assumes "h \<in> {7, 30, 90}"
  shows "(let hist = get_historical_assessments st now tgt 90;
              overall_delta = delta_for h (calculate_deltas st now tgt cur);
              dimension_delta = delta_for h (calculate_sub_score_deltas st now tgt dimension val)
          in set hist = row_to_historical `
                 {r \<in> set (historical_assessments st).
                    h_target r = tgt \<and> now - timedelta_days 90 \<le> h_generated_at r}
             \<and> (hist = [] \<longrightarrow> overall_delta = 0 \<and> dimension_delta = 0)
             \<and> (hist \<noteq> [] \<longrightarrow>
                  (\<exists>a \<in> set hist.
                     (\<forall>b \<in> set hist. \<bar>generated_at a - (now - timedelta_days h)\<bar>
                                        \<le> \<bar>generated_at b - (now - timedelta_days h)\<bar>)
                     \<and> overall_delta = cur - overall_score a
                     \<and> dimension_delta =
                         (case get_sub_score (sub_scores a) dimension of
                            Some s \<Rightarrow> val - ss_value s
                          | None \<Rightarrow> 0))))"
proof -
  let ?hist = "get_historical_assessments st now tgt 90"
  let ?t = "now - timedelta_days h"
  have empty: "delta_for h (calculate_deltas st now tgt cur) = 0
      \<and> delta_for h (calculate_sub_score_deltas st now tgt dimension val) = 0" if "?hist = []"
    using that
    by (simp add: delta_for_def calculate_deltas_def calculate_sub_score_deltas_def)
  have nonempty: "\<exists>a \<in> set ?hist.
      (\<forall>b \<in> set ?hist. \<bar>generated_at a - ?t\<bar> \<le> \<bar>generated_at b - ?t\<bar>)
      \<and> delta_for h (calculate_deltas st now tgt cur) = cur - overall_score a
      \<and> delta_for h (calculate_sub_score_deltas st now tgt dimension val) =
          (case get_sub_score (sub_scores a) dimension of Some s \<Rightarrow> val - ss_value s | None \<Rightarrow> 0)"
    if ne: "?hist \<noteq> []"
  proof -
    from closest_loop_nearest [OF ne, of ?t] obtain a where a:
      "a \<in> set ?hist" "closest_loop ?t ?hist None None = Some a"
      "\<forall>b \<in> set ?hist. \<bar>generated_at a - ?t\<bar> \<le> \<bar>generated_at b - ?t\<bar>"
      by blast
    have "delta_for h (calculate_deltas st now tgt cur) = cur - overall_score a"
      using horizon_deltas(1) [OF assms ne] a(2) by (simp add: find_closest_score_def)
    moreover have "delta_for h (calculate_sub_score_deltas st now tgt dimension val) =
          (case get_sub_score (sub_scores a) dimension of Some s \<Rightarrow> val - ss_value s | None \<Rightarrow> 0)"
      using horizon_deltas(2) [OF assms ne] a(2)
      by (simp add: find_closest_sub_score_def split: option.splits)
    ultimately show ?thesis
      using a(1) a(3) by blast
  qed
  show ?thesis
    unfolding Let_def
    using empty nonempty set_get_historical_assessments [of st now tgt 90] by blast
qed

theorem deltas_nearest_in_window_witness:
  "(90::int) \<in> {7, 30, 90}
   \<and> get_historical_assessments example_log (timedelta_days 100) ''X'' 90 \<noteq> []
   \<and> (\<exists>a \<in> set (get_historical_assessments example_log (timedelta_days 100) ''X'' 90).
         delta_for 90 (calculate_deltas example_log (timedelta_days 100) ''X'' 70)
           = 70 - overall_score a
         \<and> delta_for 90 (calculate_sub_score_deltas example_log (timedelta_days 100) ''X''
                            ''security'' 70)
           = (case get_sub_score (sub_scores a) ''security'' of
                Some s \<Rightarrow> 70 - ss_value s | None \<Rightarrow> 0))"
proof -
  have h: "(90::int) \<in> {7, 30, 90}" by simp
  have ne: "get_historical_assessments example_log (timedelta_days 100) ''X'' 90 \<noteq> []"
    by (simp add: example_hist)
  show ?thesis
    using deltas_nearest_in_window [OF h, of example_log "timedelta_days 100" "''X''" 70
        "''security''" 70] ne h
    unfolding Let_def by blast
qed

text \<open>
  C3 as stated fails. At day 100 the log of X holds a snapshot of day 9 (score 50) and one
  of day 99 (score 60). The snapshot nearest to day 10, the 90-day horizon, is the one of
  day 9, so the stated delta of a current score of 70 is 20; the engine consults only
  the snapshots of the last 90 days, finds the one of day 99 and returns 10.
\<close>

theorem deltas_whole_log_counterexample:
  "delta_for 90 (calculate_deltas example_log (timedelta_days 100) ''X'' 70) = 10
   \<and> nearest_in_whole_log_delta example_log (timedelta_days 100) ''X'' 90 70 = 20"
proof
  show "delta_for 90 (calculate_deltas example_log (timedelta_days 100) ''X'' 70) = 10"
    by (simp add: delta_for_def calculate_deltas_def example_hist find_closest_score_def
        row_to_historical_def Let_def)
  show "nearest_in_whole_log_delta example_log (timedelta_days 100) ''X'' 90 70 = 20"
    by (simp add: nearest_in_whole_log_delta_def rows_of_def example_log_def
        timedelta_days_def microseconds_per_day_def Let_def)
qed

subsection \<open>C4: who appends to the historical log\<close>

lemma engine_reads_only: "snd (calculate_assessment cfg lib now st tgt evs_arg) = st"
  by (simp add: calculate_assessment_def Let_def)

lemma assessment_fields:
  "target (fst (calculate_assessment cfg lib now st tgt evs_arg)) = tgt"
  "generated_at (fst (calculate_assessment cfg lib now st tgt evs_arg)) = now"
  by (simp_all add: calculate_assessment_def Let_def)

lemma pipeline_is_save:
  "pipeline_score_country cfg lib now st tgt evs =
     save_assessment st (fst (calculate_assessment cfg lib now st tgt (Some evs)))"
  using engine_reads_only [of cfg lib now st tgt "Some evs"]
  by (simp add: pipeline_score_country_def case_prod_beta)

lemma save_assessment_log:
  "historical_assessments (save_assessment st a) =
     historical_assessments st @
       [\<lparr> h_assessment_id = assessment_id a, h_target = target a,
          h_overall_score = overall_score a, h_sub_scores = sub_scores a,
          h_generated_at = generated_at a \<rparr>]"
  by (simp add: save_assessment_def)

lemma row_in_window:
  "row_to_historical r \<in> set (get_historical_assessments st later tgt days)
     \<longleftrightarrow> r \<in> set (historical_assessments st) \<and> h_target r = tgt
         \<and> later - timedelta_days days \<le> h_generated_at r"
proof -
  have inj: "row_to_historical x = row_to_historical y \<Longrightarrow> x = y" for x y
    by (cases x, cases y) (simp add: row_to_historical_def)
  show ?thesis
    unfolding set_get_historical_assessments
    using inj by blast
qed

text \<open>
  C4, as amended. \<open>calculate_assessment\<close> leaves the storage as it found it. The append
  is the pipeline's: its scoring step saves the assessment it has just calculated, which
  adds one row for the target at the end of the historical log, leaves the rows of every
  other target as they were, and a later lookup for the target returns the new snapshot
  exactly while it is at most 90 days old.
\<close>

theorem append_by_pipeline:
  "snd (calculate_assessment cfg lib now st tgt evs_arg) = st
   \<and> (let st' = pipeline_score_country cfg lib now st tgt evs;
           a = fst (calculate_assessment cfg lib now st tgt (Some evs));
           row = \<lparr> h_assessment_id = assessment_id a, h_target = tgt,
                   h_overall_score = overall_score a, h_sub_scores = sub_scores a,
                   h_generated_at = now \<rparr>
       in historical_assessments st' = historical_assessments st @ [row]
          \<and> rows_of tgt st' = rows_of tgt st @ [row]
          \<and> length (rows_of tgt st') = Suc (length (rows_of tgt st))
          \<and> (\<forall>other. other \<noteq> tgt \<longrightarrow> rows_of other st' = rows_of other st)
          \<and> (\<forall>later. row_to_historical row \<in> set (get_historical_assessments st' later tgt 90)
                        \<longleftrightarrow> later - timedelta_days 90 \<le> now))"
proof -
  define a where "a = fst (calculate_assessment cfg lib now st tgt (Some evs))"
  define row where "row = \<lparr> h_assessment_id = assessment_id a, h_target = tgt,
                   h_overall_score = overall_score a, h_sub_scores = sub_scores a,
                   h_generated_at = now \<rparr>"
  define st' where "st' = pipeline_score_country cfg lib now st tgt evs"
  have row_sel: "h_target row = tgt" "h_generated_at row = now"
    by (simp_all add: row_def)
  have log: "historical_assessments st' = historical_assessments st @ [row]"
    unfolding st'_def pipeline_is_save save_assessment_log assessment_fields row_def a_def
    by (rule refl)
  have own: "rows_of tgt st' = rows_of tgt st @ [row]"
    by (simp add: rows_of_def log row_sel)
  have len: "length (rows_of tgt st') = Suc (length (rows_of tgt st))"
    by (simp add: own)
  have others: "\<forall>other. other \<noteq> tgt \<longrightarrow> rows_of other st' = rows_of other st"
    by (simp add: rows_of_def log row_sel)
  have seen: "\<forall>later. row_to_historical row \<in> set (get_historical_assessments st' later tgt 90)
                \<longleftrightarrow> later - timedelta_days 90 \<le> now"
    by (simp add: row_in_window log row_sel)
  have "historical_assessments st' = historical_assessments st @ [row]
          \<and> rows_of tgt st' = rows_of tgt st @ [row]
          \<and> length (rows_of tgt st') = Suc (length (rows_of tgt st))
          \<and> (\<forall>other. other \<noteq> tgt \<longrightarrow> rows_of other st' = rows_of other st)
          \<and> (\<forall>later. row_to_historical row \<in> set (get_historical_assessments st' later tgt 90)
                        \<longleftrightarrow> later - timedelta_days 90 \<le> now)"
    using log own len others seen by blast
  then show ?thesis
    unfolding Let_def st'_def row_def a_def
    using engine_reads_only [of cfg lib now st tgt evs_arg] by blast
qed

theorem append_by_pipeline_witness:
  "length (rows_of ''X''
     (pipeline_score_country example_config example_library 0 empty_storage ''X'' [])) = 1"
  using append_by_pipeline [where cfg = example_config and lib = example_library and now = 0
      and st = empty_storage and tgt = "''X''" and evs = "[]", THEN conjunct2]
  by (simp add: Let_def rows_of_def empty_storage_def)

text \<open>
  C4 as stated fails: the log of X is empty before a call of the engine's
  \<open>calculate_assessment\<close> and still empty after it.
\<close>

theorem engine_appends_counterexample:
  "length (rows_of ''X'' empty_storage) = 0
   \<and> length (rows_of ''X''
        (snd (calculate_assessment example_config example_library 0 empty_storage ''X'' (Some []))))
      = 0"
  by (simp add: engine_reads_only) (simp add: rows_of_def empty_storage_def)

subsection \<open>C5 and C6: the greedy clustering pass\<close>

lemma find_similar_loop_closed:
  assumes "distinct (map source_id others)"
  shows "find_similar_loop lib cfg tw src others (cluster, processed) =
           (cluster @ filter (\<lambda>other. source_id other \<notin> processed
                                     \<and> are_similar lib cfg src other tw) others,
            processed \<union> source_id ` {other \<in> set others. source_id other \<notin> processed
                                     \<and> are_similar lib cfg src other tw})"
  using assms
proof (induction others arbitrary: cluster processed)
  case Nil
  then show ?case by simp
next
  case (Cons x xs)
  have dist: "distinct (map source_id xs)"
    using Cons.prems by simp
  have "source_id x \<notin> source_id ` set xs"
    using Cons.prems by simp
  then have fresh: "\<forall>y \<in> set xs. source_id y \<noteq> source_id x"
    by (metis image_eqI)
  show ?case
  proof (cases "source_id x \<in> processed")
    case True
    then show ?thesis
      using Cons.IH [OF dist, of cluster processed] by auto
  next
    case False
    show ?thesis
    proof (cases "are_similar lib cfg src x tw")
      case sim: True
      have same: "filter (\<lambda>other. source_id other \<noteq> source_id x \<and> source_id other \<notin> processed
                                     \<and> are_similar lib cfg src other tw) xs
                = filter (\<lambda>other. source_id other \<notin> processed
                                     \<and> are_similar lib cfg src other tw) xs"
        using fresh by (intro filter_cong) auto
      have same_set: "{other \<in> set xs. source_id other \<noteq> source_id x
                                     \<and> source_id other \<notin> processed
                                     \<and> are_similar lib cfg src other tw}
                = {other \<in> set xs. source_id other \<notin> processed
                                     \<and> are_similar lib cfg src other tw}"
        using fresh by auto
      have whole: "insert (source_id x)
            (processed \<union> source_id ` {other \<in> set xs. source_id other \<notin> processed
                                     \<and> are_similar lib cfg src other tw})
          = processed \<union> source_id ` {other \<in> set (x # xs). source_id other \<notin> processed
                                     \<and> are_similar lib cfg src other tw}"
        using False sim by auto
      show ?thesis
        using False sim Cons.IH [OF dist, of "cluster @ [x]" "insert (source_id x) processed"]
        by (simp add: same same_set) (use whole in simp)
    next
      case nosim: False
      then show ?thesis
        using False Cons.IH [OF dist, of cluster processed] by auto
    qed
  qed
qed

lemma cluster_step:
  assumes "distinct (map source_id all_sources)"
  shows "find_similar_loop lib cfg tw a all_sources ([a], insert (source_id a) processed) =
           (cluster_of lib cfg tw all_sources processed a,
            processed \<union> source_id ` set (cluster_of lib cfg tw all_sources processed a))"
  unfolding find_similar_loop_closed [OF assms] cluster_of_def
  by auto


lemma cluster_of_ids:
  assumes "distinct (map source_id all_sources)"
  shows "distinct (map source_id (cluster_of lib cfg tw all_sources processed a))"
  unfolding cluster_of_def
  using assms by (auto simp: distinct_map_filter)

lemma cluster_of_fresh:
  assumes "source_id a \<notin> processed" "x \<in> set (cluster_of lib cfg tw all_sources processed a)"
  shows "source_id x \<notin> processed"
  using assms unfolding cluster_of_def by auto

lemma cluster_of_subset:
  assumes "a \<in> set all_sources"
  shows "set (cluster_of lib cfg tw all_sources processed a) \<subseteq> set all_sources"
  using assms unfolding cluster_of_def by auto

lemma greedy_inv_step:
  assumes dist: "distinct (map source_id all_sources)"
    and inv: "greedy_inv lib cfg tw all_sources clusters processed"
    and a: "a \<in> set all_sources" "source_id a \<notin> processed"
  shows "greedy_inv lib cfg tw all_sources
           (clusters @ [cluster_of lib cfg tw all_sources processed a])
           (processed \<union> source_id ` set (cluster_of lib cfg tw all_sources processed a))"
proof -
  let ?c = "cluster_of lib cfg tw all_sources processed a"
  have p: "processed = source_id ` set (concat clusters)"
    and d: "distinct (map source_id (concat clusters))"
    and sub: "set (concat clusters) \<subseteq> set all_sources"
    and shape: "\<forall>i < length clusters. \<exists>a \<in> set all_sources.
           clusters ! i =
             cluster_of lib cfg tw all_sources (source_id ` set (concat (take i clusters))) a"
    using inv unfolding greedy_inv_def by blast+
  have 1: "processed \<union> source_id ` set ?c = source_id ` set (concat (clusters @ [?c]))"
    using p by (simp add: image_Un)
  have fresh_c: "source_id x \<notin> source_id ` set (concat clusters)" if "x \<in> set ?c" for x
    using cluster_of_fresh [OF a(2) that] unfolding p .
  have disjoint: "source_id ` set (concat clusters) \<inter> source_id ` set ?c = {}"
  proof (rule equals0I)
    fix y
    assume "y \<in> source_id ` set (concat clusters) \<inter> source_id ` set ?c"
    then obtain x where x: "x \<in> set ?c" "y = source_id x"
      and y: "y \<in> source_id ` set (concat clusters)"
      by blast
    from fresh_c [OF x(1)] y show False
      unfolding x(2) by (rule notE)
  qed
  have 2: "distinct (map source_id (concat (clusters @ [?c])))"
    using d cluster_of_ids [OF dist, of lib cfg tw processed a] disjoint
    by simp
  have 3: "set (concat (clusters @ [?c])) \<subseteq> set all_sources"
    using sub cluster_of_subset [OF a(1)] by simp
  have 4: "\<exists>b \<in> set all_sources.
           (clusters @ [?c]) ! i =
             cluster_of lib cfg tw all_sources
               (source_id ` set (concat (take i (clusters @ [?c])))) b"
    if "i < length (clusters @ [?c])" for i
  proof (cases "i < length clusters")
    case True
    then show ?thesis
      using shape by (simp add: nth_append)
  next
    case False
    then have "i = length clusters"
      using that by simp
    then show ?thesis
      using a(1) p by (auto simp: nth_append)
  qed
  show ?thesis
    unfolding greedy_inv_def using 1 2 3 4 by blast
qed

lemma cluster_loop_inv:
  assumes dist: "distinct (map source_id all_sources)"
  shows "greedy_inv lib cfg tw all_sources clusters processed \<Longrightarrow>
         set rest \<subseteq> set all_sources \<Longrightarrow>
         \<exists>P. greedy_inv lib cfg tw all_sources
                (cluster_loop lib cfg tw all_sources rest (clusters, processed)) P
              \<and> processed \<union> source_id ` set rest \<subseteq> P"
proof (induction rest arbitrary: clusters processed)
  case Nil
  then show ?case by auto
next
  case (Cons s rest)
  have s: "s \<in> set all_sources" and rest: "set rest \<subseteq> set all_sources"
    using Cons.prems(2) by auto
  show ?case
  proof (cases "source_id s \<in> processed")
    case True
    from Cons.IH [OF Cons.prems(1) rest] obtain P where
      "greedy_inv lib cfg tw all_sources
         (cluster_loop lib cfg tw all_sources rest (clusters, processed)) P"
      "processed \<union> source_id ` set rest \<subseteq> P"
      by blast
    with True show ?thesis
      by (intro exI [of _ P]) auto
  next
    case False
    let ?c = "cluster_of lib cfg tw all_sources processed s"
    let ?p = "processed \<union> source_id ` set ?c"
    have step: "greedy_inv lib cfg tw all_sources (clusters @ [?c]) ?p"
      by (rule greedy_inv_step [OF dist Cons.prems(1) s False])
    from Cons.IH [OF step rest] obtain P where P:
      "greedy_inv lib cfg tw all_sources
         (cluster_loop lib cfg tw all_sources rest (clusters @ [?c], ?p)) P"
      "?p \<union> source_id ` set rest \<subseteq> P"
      by blast
    have "source_id s \<in> ?p"
      by (simp add: cluster_of_def)
    with P False show ?thesis
      by (intro exI [of _ P]) (auto simp: cluster_step [OF dist])
  qed
qed

lemma sorted_sources_ids:
  "distinct (map source_id (sort_key effective_time srcs)) \<longleftrightarrow> distinct (map source_id srcs)"
proof -
  have "mset (map source_id (sort_key effective_time srcs)) = mset (map source_id srcs)"
    by simp
  then show ?thesis
    by (rule mset_eq_imp_distinct_iff)
qed

lemma cluster_sources_inv:
  assumes "distinct (map source_id srcs)"
  shows "\<exists>P. greedy_inv lib cfg (timedelta_hours (time_window_hours (deduplication cfg)))
               (sort_key effective_time srcs) (cluster_sources lib cfg srcs) P
             \<and> source_id ` set srcs \<subseteq> P"
proof -
  let ?all = "sort_key effective_time srcs"
  let ?tw = "timedelta_hours (time_window_hours (deduplication cfg))"
  have dist: "distinct (map source_id ?all)"
    using assms by (simp only: sorted_sources_ids)
  have init: "greedy_inv lib cfg ?tw ?all [] {}"
    by (simp add: greedy_inv_def)
  from cluster_loop_inv [OF dist init, of ?all] obtain P where
    "greedy_inv lib cfg ?tw ?all (cluster_loop lib cfg ?tw ?all ?all ([], {})) P"
    "source_id ` set ?all \<subseteq> P"
    by auto
  then show ?thesis
    by (intro exI [of _ P]) (simp add: cluster_sources_def Let_def)
qed


lemma text_similarity_commute: "text_similarity t1 t2 = text_similarity t2 t1"
  by (simp add: text_similarity_def Let_def Int_commute Un_commute disj_commute)

lemma same_domain_commute: "same_domain lib u1 u2 = same_domain lib u2 u1"
  by (auto simp: same_domain_def split: option.splits)

lemma are_similar_commute: "are_similar lib cfg a b tw = are_similar lib cfg b a tw"
  unfolding are_similar_def Let_def
  by (simp only: text_similarity_commute [of "title a"] abs_minus_commute [of "effective_time a"]
      text_similarity_commute [of "take 500 (content a)"] same_domain_commute [of lib "url a"])

lemma title_similar:
  assumes "text_similarity (title a) (title b) > similarity_threshold (deduplication cfg)"
    and "\<bar>effective_time a - effective_time b\<bar> < tw"
  shows "are_similar lib cfg a b tw"
  using assms by (simp add: are_similar_def Let_def)

lemma in_concat_take:
  assumes "y \<in> set (concat (take i xss))"
  shows "\<exists>j < i. j < length xss \<and> y \<in> set (xss ! j)"
proof -
  from assms obtain xs where "xs \<in> set (take i xss)" "y \<in> set xs"
    by auto
  then obtain j where "j < length (take i xss)" "take i xss ! j = xs"
    by (auto simp: in_set_conv_nth)
  then have "j < i" "j < length xss" "xss ! j = xs"
    by auto
  with \<open>y \<in> set xs\<close> show ?thesis by blast
qed

lemma same_id_same_item:
  assumes "distinct (map source_id xs)" "x \<in> set xs" "y \<in> set xs" "source_id x = source_id y"
  shows "x = y"
  using assms by (meson distinct_map inj_on_def)


lemma cluster_sources_shape:
  assumes dist: "distinct (map source_id batch)"
  shows "distinct (concat (cluster_sources lib cfg batch))"
    and "set (concat (cluster_sources lib cfg batch)) = set batch"
    and "\<forall>i < length (cluster_sources lib cfg batch). \<exists>a \<in> set batch.
           cluster_sources lib cfg batch ! i =
             cluster_of lib cfg (timedelta_hours (time_window_hours (deduplication cfg)))
               (sort_key effective_time batch)
               (source_id ` set (concat (take i (cluster_sources lib cfg batch)))) a"
proof -
  let ?res = "cluster_sources lib cfg batch"
  let ?all = "sort_key effective_time batch"
  let ?tw = "timedelta_hours (time_window_hours (deduplication cfg))"
  from cluster_sources_inv [OF dist, of lib cfg] obtain P where
    inv: "greedy_inv lib cfg ?tw ?all ?res P" and all_in: "source_id ` set batch \<subseteq> P"
    by blast
  have p: "P = source_id ` set (concat ?res)"
    and d: "distinct (map source_id (concat ?res))"
    and sub: "set (concat ?res) \<subseteq> set batch"
    and shape: "\<forall>i < length ?res. \<exists>a \<in> set ?all.
           ?res ! i = cluster_of lib cfg ?tw ?all (source_id ` set (concat (take i ?res))) a"
    using inv unfolding greedy_inv_def by simp_all
  show "distinct (concat ?res)"
    using d by (rule distinct_map [THEN iffD1, THEN conjunct1])
  show "set (concat ?res) = set batch"
  proof
    show "set (concat ?res) \<subseteq> set batch" by (rule sub)
    show "set batch \<subseteq> set (concat ?res)"
    proof
      fix x
      assume x: "x \<in> set batch"
      then have "source_id x \<in> source_id ` set (concat ?res)"
        using all_in p by blast
      then obtain y where y: "y \<in> set (concat ?res)" "source_id x = source_id y"
        by blast
      then have "y \<in> set batch"
        using sub by blast
      from same_id_same_item [OF dist x this y(2)] y(1) show "x \<in> set (concat ?res)"
        by simp
    qed
  qed
  show "\<forall>i < length ?res. \<exists>a \<in> set batch.
           ?res ! i = cluster_of lib cfg ?tw ?all (source_id ` set (concat (take i ?res))) a"
    using shape by simp
qed

lemma clustering_batch_ids: "distinct (map source_id clustering_batch)"
  by code_simp

lemma clustering_batch_clusters:
  "cluster_sources example_library example_config clustering_batch
     = [[item_c, item_a], [item_b]]"
  by code_simp

text \<open>
  C6. For every batch whose items have pairwise distinct identifiers, the clusters of a
  run are non-empty and every item of the batch occurs in them exactly once (the
  concatenated clusters are a permutation of the batch); the empty batch gives no
  cluster, and an item that is similar to no other item of the batch is a cluster of
  its own.
\<close>

theorem cluster_sources_partition:
  assumes dist: "distinct (map source_id batch)"
  shows "mset (concat (cluster_sources lib cfg batch)) = mset batch
         \<and> [] \<notin> set (cluster_sources lib cfg batch)
         \<and> cluster_sources lib cfg [] = []
         \<and> (\<forall>x \<in> set batch.
              (\<forall>y \<in> set batch. y \<noteq> x \<longrightarrow>
                 \<not> are_similar lib cfg x y
                     (timedelta_hours (time_window_hours (deduplication cfg))))
              \<longrightarrow> [x] \<in> set (cluster_sources lib cfg batch))"
proof -
  let ?res = "cluster_sources lib cfg batch"
  let ?all = "sort_key effective_time batch"
  let ?tw = "timedelta_hours (time_window_hours (deduplication cfg))"
  note shape = cluster_sources_shape [OF dist, of lib cfg]
  have batch_distinct: "distinct batch"
    using dist by (rule distinct_map [THEN iffD1, THEN conjunct1])
  have part: "mset (concat ?res) = mset batch"
    by (rule set_eq_iff_mset_eq_distinct [OF shape(1) batch_distinct, THEN iffD1, OF shape(2)])
  have nonempty: "[] \<notin> set ?res"
  proof
    assume "[] \<in> set ?res"
    then obtain i where "i < length ?res" "?res ! i = []"
      by (auto simp: in_set_conv_nth)
    with shape(3) show False
      by (auto simp: cluster_of_def)
  qed
  have empty: "cluster_sources lib cfg [] = []"
    by (simp add: cluster_sources_def)
  have single: "[x] \<in> set ?res"
    if x: "x \<in> set batch"
      and alone: "\<forall>y \<in> set batch. y \<noteq> x \<longrightarrow> \<not> are_similar lib cfg x y ?tw" for x
  proof -
    from x shape(2) obtain c where c: "c \<in> set ?res" "x \<in> set c"
      by auto
    then obtain i where i: "i < length ?res" "?res ! i = c"
      by (auto simp: in_set_conv_nth)
    with shape(3) obtain a where a: "a \<in> set batch"
      "c = cluster_of lib cfg ?tw ?all (source_id ` set (concat (take i ?res))) a"
      by auto
    have no_member: "\<not> (y \<in> set ?all \<and> source_id y \<noteq> source_id a \<and> are_similar lib cfg a y ?tw)"
      if "x = a" for y
      using alone that by auto
    show ?thesis
    proof (cases "x = a")
      case True
      have "c = [x]"
        unfolding a(2) cluster_of_def using no_member [OF True] True
        by (auto simp: filter_empty_conv)
      with c(1) show ?thesis by simp
    next
      case False
      then have "are_similar lib cfg a x ?tw"
        using c(2) unfolding a(2) cluster_of_def by auto
      then have "are_similar lib cfg x a ?tw"
        by (simp only: are_similar_commute [of lib cfg x a])
      with alone a(1) False show ?thesis by auto
    qed
  qed
  show ?thesis
    using part nonempty empty single by blast
qed

theorem cluster_sources_partition_witness:
  "distinct (map source_id clustering_batch)
   \<and> mset (concat (cluster_sources example_library example_config clustering_batch))
       = mset clustering_batch
   \<and> [] \<notin> set (cluster_sources example_library example_config clustering_batch)"
  using cluster_sources_partition [OF clustering_batch_ids, of example_library example_config]
    clustering_batch_ids
  by blast

text \<open>
  C5, as amended. For every batch whose items have pairwise distinct identifiers: when
  an item is the anchor (first item) of an output cluster, every item of the batch
  whose title similarity to it exceeds the threshold and whose effective timestamp
  differs from its by less than the time window is in that cluster or in a cluster
  formed before it.
\<close>

theorem anchor_attracts_similar:
  assumes dist: "distinct (map source_id batch)"
    and i: "i < length (cluster_sources lib cfg batch)"
    and b: "b \<in> set batch"
    and sim: "text_similarity (title (hd (cluster_sources lib cfg batch ! i))) (title b)
                > similarity_threshold (deduplication cfg)"
    and near: "\<bar>effective_time (hd (cluster_sources lib cfg batch ! i)) - effective_time b\<bar>
                < timedelta_hours (time_window_hours (deduplication cfg))"
  shows "b \<in> set (cluster_sources lib cfg batch ! i)
         \<or> (\<exists>j < i. b \<in> set (cluster_sources lib cfg batch ! j))"
proof -
  let ?res = "cluster_sources lib cfg batch"
  let ?all = "sort_key effective_time batch"
  let ?tw = "timedelta_hours (time_window_hours (deduplication cfg))"
  let ?seen = "source_id ` set (concat (take i ?res))"
  note shape = cluster_sources_shape [OF dist, of lib cfg]
  from shape(3) i obtain a where a: "a \<in> set batch"
    "?res ! i = cluster_of lib cfg ?tw ?all ?seen a"
    by auto
  have hd: "hd (?res ! i) = a"
    by (simp add: a(2) cluster_of_def)
  have similar: "are_similar lib cfg a b ?tw"
    using title_similar [of cfg a b ?tw lib] sim near unfolding hd by simp
  show ?thesis
  proof (cases "source_id b \<in> ?seen")
    case True
    then obtain y where y: "y \<in> set (concat (take i ?res))" "source_id b = source_id y"
      by blast
    from in_concat_take [OF y(1)] obtain j where j: "j < i" "j < length ?res" "y \<in> set (?res ! j)"
      by blast
    then have "y \<in> set (concat ?res)"
      by (auto intro: nth_mem)
    then have "y \<in> set batch"
      unfolding shape(2) .
    from same_id_same_item [OF dist b this y(2)] j show ?thesis
      by blast
  next
    case False
    show ?thesis
    proof (cases "source_id b = source_id a")
      case True
      from same_id_same_item [OF dist b a(1) True] show ?thesis
        by (simp add: a(2) cluster_of_def)
    next
      case other: False
      then have "b \<in> set (?res ! i)"
        using False similar b by (simp add: a(2) cluster_of_def)
      then show ?thesis ..
    qed
  qed
qed

theorem anchor_attracts_similar_witness:
  "distinct (map source_id clustering_batch)
   \<and> 0 < length (cluster_sources example_library example_config clustering_batch)
   \<and> item_a \<in> set clustering_batch
   \<and> text_similarity
        (title (hd (cluster_sources example_library example_config clustering_batch ! 0)))
        (title item_a) > similarity_threshold (deduplication example_config)
   \<and> \<bar>effective_time (hd (cluster_sources example_library example_config clustering_batch ! 0))
        - effective_time item_a\<bar>
        < timedelta_hours (time_window_hours (deduplication example_config))
   \<and> (item_a \<in> set (cluster_sources example_library example_config clustering_batch ! 0)
        \<or> (\<exists>j < 0. item_a \<in> set (cluster_sources example_library example_config
                                          clustering_batch ! j)))"
proof -
  have 1: "0 < length (cluster_sources example_library example_config clustering_batch)"
    by (simp add: clustering_batch_clusters)
  have 2: "item_a \<in> set clustering_batch"
    by (simp add: clustering_batch_def)
  have 3: "text_similarity
        (title (hd (cluster_sources example_library example_config clustering_batch ! 0)))
        (title item_a) > similarity_threshold (deduplication example_config)"
    unfolding clustering_batch_clusters by code_simp
  have 4: "\<bar>effective_time (hd (cluster_sources example_library example_config clustering_batch ! 0))
        - effective_time item_a\<bar>
        < timedelta_hours (time_window_hours (deduplication example_config))"
    unfolding clustering_batch_clusters by code_simp
  show ?thesis
    using anchor_attracts_similar [OF clustering_batch_ids 1 2 3 4] clustering_batch_ids 1 2 3 4
    by blast
qed

text \<open>
  C5 as stated fails. With a threshold of 0.5 and a window of 24 hours, the second and
  the third item of the example batch have a title similarity of 3/5 and are a
  microsecond apart, yet the run puts the second into the cluster of the first item
  (similarity 3/4), and the third, which is not similar to that anchor (2/5), into a
  cluster of its own.
\<close>

theorem similar_pair_split_counterexample:
  "text_similarity (title item_a) (title item_b) > similarity_threshold (deduplication example_config)
   \<and> \<bar>effective_time item_a - effective_time item_b\<bar>
        < timedelta_hours (time_window_hours (deduplication example_config))
   \<and> item_a \<in> set clustering_batch \<and> item_b \<in> set clustering_batch
   \<and> cluster_sources example_library example_config clustering_batch
        = [[item_c, item_a], [item_b]]
   \<and> \<not> (\<exists>c \<in> set (cluster_sources example_library example_config clustering_batch).
            item_a \<in> set c \<and> item_b \<in> set c)"
  by code_simp

subsection \<open>C7: first match in the pattern table\<close>

lemma type_patterns_loop_any:
  "type_patterns_loop et ps hay = (if list_ex (\<lambda>p. re_search p hay) ps then Some et else None)"
  by (induction ps) simp_all

lemma patterns_loop_find:
  "patterns_loop table hay =
     map_option fst (find (\<lambda>(et, ps). list_ex (\<lambda>p. re_search p hay) ps) table)"
  by (induction table) (auto simp: type_patterns_loop_any)

lemma patterns_loop_None:
  "patterns_loop table hay = None \<longleftrightarrow>
     \<not> list_ex (\<lambda>(et, ps). list_ex (\<lambda>p. re_search p hay) ps) table"
  by (auto simp: patterns_loop_find find_None_iff list_ex_iff)

lemma patterns_order:
  "map fst patterns =
     [GOVERNMENT_CHANGE, ELECTION, SANCTIONS, ARMED_CONFLICT, CEASEFIRE, TERRORIST_ATTACK,
      CIVIL_UNREST, BORDER_INCIDENT, TRADE_RESTRICTION, ECONOMIC_CRISIS,
      INFRASTRUCTURE_DISRUPTION, NATURAL_DISASTER, DIPLOMATIC_RUPTURE,
      MILITARY_MOBILIZATION, CYBER_INCIDENT, LEGAL_CHANGE, STRATEGIC_INVESTMENT]"
  by (simp add: patterns_def)

text \<open>
  C7. The event kind of a source is the first entry of the pattern table, in its
  declaration order, one of whose patterns is found in the lower-cased title and body
  of the source, whatever later entries would match; when no entry has a pattern that
  is found, a cluster with that source as its anchor yields no event.
\<close>

theorem first_match_wins:
  "detect_event_type s =
     map_option fst
       (find (\<lambda>(et, ps). list_ex (\<lambda>p. re_search p (lower (title s @ '' '' @ content s))) ps)
          patterns)
   \<and> map fst patterns =
       [GOVERNMENT_CHANGE, ELECTION, SANCTIONS, ARMED_CONFLICT, CEASEFIRE, TERRORIST_ATTACK,
        CIVIL_UNREST, BORDER_INCIDENT, TRADE_RESTRICTION, ECONOMIC_CRISIS,
        INFRASTRUCTURE_DISRUPTION, NATURAL_DISASTER, DIPLOMATIC_RUPTURE,
        MILITARY_MOBILIZATION, CYBER_INCIDENT, LEGAL_CHANGE, STRATEGIC_INVESTMENT]
   \<and> (\<not> list_ex (\<lambda>(et, ps). list_ex (\<lambda>p. re_search p (lower (title anchor @ '' '' @ content anchor))) ps)
            patterns
        \<longrightarrow> extract_events lib cfg now (anchor # others) = Inr [])"
proof (intro conjI impI)
  show "detect_event_type s =
     map_option fst
       (find (\<lambda>(et, ps). list_ex (\<lambda>p. re_search p (lower (title s @ '' '' @ content s))) ps)
          patterns)"
    by (simp only: detect_event_type_def patterns_loop_find)
  show "map fst patterns =
       [GOVERNMENT_CHANGE, ELECTION, SANCTIONS, ARMED_CONFLICT, CEASEFIRE, TERRORIST_ATTACK,
        CIVIL_UNREST, BORDER_INCIDENT, TRADE_RESTRICTION, ECONOMIC_CRISIS,
        INFRASTRUCTURE_DISRUPTION, NATURAL_DISASTER, DIPLOMATIC_RUPTURE,
        MILITARY_MOBILIZATION, CYBER_INCIDENT, LEGAL_CHANGE, STRATEGIC_INVESTMENT]"
    by (rule patterns_order)
  assume "\<not> list_ex (\<lambda>(et, ps). list_ex (\<lambda>p. re_search p (lower (title anchor @ '' '' @ content anchor))) ps)
            patterns"
  then have "detect_event_type anchor = None"
    unfolding detect_event_type_def by (rule patterns_loop_None [THEN iffD2])
  then show "extract_events lib cfg now (anchor # others) = Inr []"
    by (simp add: extract_events_def)
qed

theorem first_match_wins_witness:
  "detect_event_type bombing_item = Some ARMED_CONFLICT
   \<and> extract_events example_library example_config 0 [unrelated_item] = Inr []"
proof
  show "detect_event_type bombing_item = Some ARMED_CONFLICT"
    unfolding first_match_wins [THEN conjunct1] by code_simp
  have none: "\<not> list_ex (\<lambda>(et, ps). list_ex (\<lambda>p. re_search p
        (lower (title unrelated_item @ '' '' @ content unrelated_item))) ps) patterns"
    by code_simp
  show "extract_events example_library example_config 0 [unrelated_item] = Inr []"
    by (rule first_match_wins [THEN conjunct2, THEN conjunct2, THEN mp, OF none])
qed

subsection \<open>C8: event identifiers\<close>

text \<open>
  C8. The identifiers of the events extracted from a cluster depend on the anchor only,
  not on the clock and not on the other items: two runs on the same cluster, at
  different times, yield the same identifiers. The identifier of an extracted event
  is the function \<open>generate_event_id\<close> of its kind, location and timestamp and of the
  anchor's source identifier.
\<close>

theorem event_id_deterministic:
  "map_sum id (map event_id) (extract_events lib cfg now1 (primary # rest1))
     = map_sum id (map event_id) (extract_events lib cfg now2 (primary # rest2))
   \<and> (extract_events lib cfg now cluster = Inr [ev] \<longrightarrow>
        event_id ev = generate_event_id lib (event_type ev) (location ev) (timestamp ev)
                        (source_id (hd cluster)))"
proof (intro conjI impI)
  show "map_sum id (map event_id) (extract_events lib cfg now1 (primary # rest1))
     = map_sum id (map event_id) (extract_events lib cfg now2 (primary # rest2))"
    by (simp add: extract_events_def update_confidence_def Let_def split: option.splits)
  assume run: "extract_events lib cfg now cluster = Inr [ev]"
  then obtain p rest where cluster: "cluster = p # rest"
    by (cases cluster) (simp_all add: extract_events_def)
  from run show "event_id ev = generate_event_id lib (event_type ev) (location ev) (timestamp ev)
                        (source_id (hd cluster))"
    unfolding cluster
    by (auto simp: extract_events_def update_confidence_def Let_def
        split: option.splits if_splits)
qed

lemma election_ids:
  "map_sum id (map event_id) (extract_events example_library example_config 0 election_cluster)
     = Inr [''election|Country'']"
  by code_simp

theorem event_id_deterministic_witness:
  "map_sum id (map event_id)
      (extract_events example_library example_config 86400000000 election_cluster)
     = Inr [''election|Country'']"
  using event_id_deterministic [THEN conjunct1, of example_library example_config
      86400000000 election_item "[election_item2]" 0 "[election_item2]"]
    election_ids
  by (simp add: election_cluster_def)

subsection \<open>C10: how many events a cluster yields\<close>

lemma country_loop_find:
  "country_loop cs hay = find (\<lambda>c. sublist (lower c) hay) cs"
  by (induction cs) simp_all

lemma lower_append: "lower (a @ b) = lower a @ lower b"
  by (simp add: lower_def)

lemma title_in_text:
  assumes "sublist n (lower (title s))"
  shows "sublist n (lower (title s @ '' '' @ content s))"
proof -
  have "sublist (lower (title s)) (lower (title s @ '' '' @ content s))"
    unfolding lower_append by (metis append_Nil sublist_appendI)
  with assms show ?thesis
    by (rule sublist_order.order.trans)
qed

lemma extract_location_find:
  "extract_location cfg s =
     find (\<lambda>c. sublist (lower c) (lower (title s @ '' '' @ content s))) (monitored_countries cfg)"
proof (cases "find (\<lambda>c. sublist (lower c) (lower (title s @ '' '' @ content s))) (monitored_countries cfg)")
  case None
  then have "\<forall>c \<in> set (monitored_countries cfg). \<not> sublist (lower c) (lower (title s))"
    using title_in_text [of _ s] by (auto simp: find_None_iff)
  then have "find (\<lambda>c. sublist (lower c) (lower (title s))) (monitored_countries cfg) = None"
    by (simp add: find_None_iff)
  with None show ?thesis
    by (simp add: extract_location_def country_loop_find)
next
  case (Some c)
  then show ?thesis
    by (simp add: extract_location_def country_loop_find)
qed

text \<open>
  C10, as amended. For every non-empty cluster, event extraction returns a list of at
  most one event; the list is empty exactly when no event kind has a pattern found in
  the anchor's text, or no monitored location name occurs in it, or the first monitored
  name that occurs in it is the empty name; otherwise it holds exactly one event.
\<close>

theorem extract_events_at_most_one:
  assumes "cluster \<noteq> []"
  shows "\<exists>evs. extract_events lib cfg now cluster = Inr evs \<and> length evs \<le> 1
           \<and> (evs = [] \<longleftrightarrow>
                 \<not> list_ex (\<lambda>(et, ps). list_ex (\<lambda>p. re_search p
                        (lower (title (hd cluster) @ '' '' @ content (hd cluster)))) ps) patterns
                 \<or> \<not> list_ex (\<lambda>c. sublist (lower c)
                        (lower (title (hd cluster) @ '' '' @ content (hd cluster))))
                      (monitored_countries cfg)
                 \<or> find (\<lambda>c. sublist (lower c)
                        (lower (title (hd cluster) @ '' '' @ content (hd cluster))))
                      (monitored_countries cfg) = Some [])"
proof -
  obtain p rest where cluster: "cluster = p # rest"
    using assms by (cases cluster) auto
  let ?hay = "lower (title p @ '' '' @ content p)"
  let ?kind = "list_ex (\<lambda>(et, ps). list_ex (\<lambda>p. re_search p ?hay) ps) patterns"
  let ?found = "find (\<lambda>c. sublist (lower c) ?hay) (monitored_countries cfg)"
  have named: "list_ex (\<lambda>c. sublist (lower c) ?hay) (monitored_countries cfg) \<longleftrightarrow> ?found \<noteq> None"
    by (auto simp: find_None_iff list_ex_iff)
  have kind: "detect_event_type p = None \<longleftrightarrow> \<not> ?kind"
    unfolding detect_event_type_def by (rule patterns_loop_None)
  have loc: "extract_location cfg p = ?found"
    by (rule extract_location_find)
  show ?thesis
  proof (cases "detect_event_type p")
    case None
    then have "extract_events lib cfg now cluster = Inr []"
      by (simp add: cluster extract_events_def)
    moreover have "\<not> ?kind"
      using None kind by simp
    ultimately show ?thesis
      unfolding cluster by (intro exI [of _ "[]"]) simp
  next
    case (Some et)
    then have is_kind: "?kind"
      using kind by simp
    show ?thesis
    proof (cases ?found)
      case None
      then have "extract_events lib cfg now cluster = Inr []"
        using Some loc by (simp add: cluster extract_events_def)
      moreover have "\<not> list_ex (\<lambda>c. sublist (lower c) ?hay) (monitored_countries cfg)"
        using None named by simp
      ultimately show ?thesis
        unfolding cluster by (intro exI [of _ "[]"]) simp
    next
      case found: (Some name)
      show ?thesis
      proof (cases "name = []")
        case True
        then have "extract_events lib cfg now cluster = Inr []"
          using Some loc found by (simp add: cluster extract_events_def)
        then show ?thesis
          unfolding cluster using found True by (intro exI [of _ "[]"]) simp
      next
        case False
        then obtain e where "extract_events lib cfg now cluster = Inr [e]"
          using Some loc found by (simp add: cluster extract_events_def Let_def)
        then show ?thesis
          unfolding cluster using found False is_kind named
          by (intro exI [of _ "[e]"]) simp
      qed
    qed
  qed
qed

theorem extract_events_at_most_one_witness:
  "election_cluster \<noteq> []
   \<and> (\<exists>evs. extract_events example_library example_config 0 election_cluster = Inr evs
         \<and> length evs = 1)"
proof -
  have ne: "election_cluster \<noteq> []"
    by (simp add: election_cluster_def)
  have kind: "list_ex (\<lambda>(et, ps). list_ex (\<lambda>p. re_search p
        (lower (title (hd election_cluster) @ '' '' @ content (hd election_cluster)))) ps) patterns"
    by code_simp
  have named: "list_ex (\<lambda>c. sublist (lower c)
        (lower (title (hd election_cluster) @ '' '' @ content (hd election_cluster))))
        (monitored_countries example_config)"
    by code_simp
  have first: "find (\<lambda>c. sublist (lower c)
        (lower (title (hd election_cluster) @ '' '' @ content (hd election_cluster))))
        (monitored_countries example_config) \<noteq> Some []"
    by code_simp
  from extract_events_at_most_one [OF ne, of example_library example_config 0]
  obtain evs where evs: "extract_events example_library example_config 0 election_cluster = Inr evs"
    "length evs \<le> 1" "evs \<noteq> []"
    using kind named first by blast
  then have "length evs = 1"
    by (cases evs) auto
  with evs(1) ne show ?thesis by blast
qed

text \<open>
  C10 as stated fails. With the empty string as a monitored name, the election item has
  a pattern of the kind ELECTION and the monitored name occurs in its text (the empty
  string occurs in every text), yet extraction returns no event: the name found is
  empty, and the guard \<open>if not location\<close> takes it for a missing one.
\<close>

theorem empty_name_counterexample:
  "extract_events example_library empty_name_config 0 [election_item] = Inr []
   \<and> detect_event_type election_item = Some ELECTION
   \<and> '''' \<in> set (monitored_countries empty_name_config)
   \<and> sublist (lower '''') (lower (title election_item @ '' '' @ content election_item))"
  by code_simp

subsection \<open>C9: correlation score and report\<close>

lemma correlated_loop_filter:
  "correlated_loop ev pool correlated =
     correlated @ filter (\<lambda>other. event_id other \<noteq> event_id ev
                                   \<and> 0.5 < calculate_correlation ev other) pool"
  by (induction pool arbitrary: correlated) simp_all

text \<open>
  C9, as amended. The correlation score of two events is the sum, capped at 1, of 0.3
  for equal lower-cased locations, 0.3 for equal kinds, 0.2 for timestamps less than 24
  hours apart or else 0.1 for less than 7 days, and 0.2 for a shared entity. Of the
  events in the time window, one whose identifier differs from the reference event's is
  reported exactly when its score exceeds 0.5, and one with the reference event's
  identifier is never reported.
\<close>

theorem correlation_score_and_report:
  "calculate_correlation event1 event2 =
     min 1 ((if lower (location event1) = lower (location event2) then 0.3 else 0)
            + (if event_type event1 = event_type event2 then 0.3 else 0)
            + (if \<bar>timestamp event1 - timestamp event2\<bar> < 86400 * 1000000 then 0.2
               else if \<bar>timestamp event1 - timestamp event2\<bar> < 604800 * 1000000 then 0.1
               else 0)
            + (if set (entities event1) \<inter> set (entities event2) \<noteq> {} then 0.2 else 0))
   \<and> find_correlated_events st ev days =
       filter (\<lambda>other. event_id other \<noteq> event_id ev \<and> 0.5 < calculate_correlation ev other)
         (get_events_by_time_range st (timestamp ev - timedelta_days days)
            (timestamp ev + timedelta_days days))
   \<and> (\<forall>other \<in> set (get_events_by_time_range st (timestamp ev - timedelta_days days)
                        (timestamp ev + timedelta_days days)).
        (event_id other \<noteq> event_id ev \<longrightarrow>
           (other \<in> set (find_correlated_events st ev days)
              \<longleftrightarrow> 0.5 < calculate_correlation ev other))
        \<and> (event_id other = event_id ev \<longrightarrow>
             other \<notin> set (find_correlated_events st ev days)))"
proof -
  have score: "calculate_correlation event1 event2 =
     min 1 ((if lower (location event1) = lower (location event2) then 0.3 else 0)
            + (if event_type event1 = event_type event2 then 0.3 else 0)
            + (if \<bar>timestamp event1 - timestamp event2\<bar> < 86400 * 1000000 then 0.2
               else if \<bar>timestamp event1 - timestamp event2\<bar> < 604800 * 1000000 then 0.1
               else 0)
            + (if set (entities event1) \<inter> set (entities event2) \<noteq> {} then 0.2 else 0))"
    by (simp add: calculate_correlation_def Let_def min.commute)
  have report: "find_correlated_events st ev days =
       filter (\<lambda>other. event_id other \<noteq> event_id ev \<and> 0.5 < calculate_correlation ev other)
         (get_events_by_time_range st (timestamp ev - timedelta_days days)
            (timestamp ev + timedelta_days days))"
    by (simp add: find_correlated_events_def Let_def correlated_loop_filter)
  show ?thesis
    using score by (simp add: report)
qed

theorem correlation_score_and_report_witness:
  "find_correlated_events example_events conflict_event 30 = [second_conflict_event]"
  unfolding correlation_score_and_report [THEN conjunct2, THEN conjunct1]
  by code_simp

text \<open>
  C9 as stated fails. The stored reference event lies in its own time window and its
  score with itself is 0.8, above 0.5, yet it is not reported: the loop skips every
  event that has the reference event's identifier before it scores it.
\<close>

theorem reference_skipped_counterexample:
  "conflict_event \<in> set (get_events_by_time_range example_events
        (timestamp conflict_event - timedelta_days 30)
        (timestamp conflict_event + timedelta_days 30))
   \<and> 0.5 < calculate_correlation conflict_event conflict_event
   \<and> conflict_event \<notin> set (find_correlated_events example_events conflict_event 30)"
  by code_simp

end
